theory Spec2Isabelle
  imports Main "HOL-Library.Word" "HOL-Library.Signed_Division"
begin

unbundle bit_operations_syntax

section \<open>Value encoding (package vm, value.go)\<close>

text \<open>
  A \<open>Value\<close> is Go's \<open>uint64\<close>: a quiet-NaN bit pattern carrying a 3-bit tag in bits
  48..50 and a 48-bit payload in bits 0..47. Go's \<open>int64\<close> is the same 64-bit word read
  through \<open>sint\<close>. Go's \<open>int\<close> (indices, counters, instruction pointer) is modelled
  as \<open>int\<close>: none of the counters below can come near \<open>2 ^ 63\<close>.
\<close>

type_synonym Value = "64 word"

definition QNAN_BASE :: "64 word" where
  "QNAN_BASE = 0x7FF8000000000000"

definition TAG_INT :: "64 word" where "TAG_INT = 0"
definition TAG_BOOL :: "64 word" where "TAG_BOOL = 1"
definition TAG_NOTHING :: "64 word" where "TAG_NOTHING = 2"
definition TAG_STRING :: "64 word" where "TAG_STRING = 3"
definition TAG_FUNC :: "64 word" where "TAG_FUNC = 4"
definition TAG_BUILTIN :: "64 word" where "TAG_BUILTIN = 5"
definition TAG_ERROR :: "64 word" where "TAG_ERROR = 6"

definition TAG_SHIFT :: nat where "TAG_SHIFT = 48"
definition TAG_MASK :: "64 word" where "TAG_MASK = 0x7"
definition PAYLOAD_MASK :: "64 word" where "PAYLOAD_MASK = 0x0000FFFFFFFFFFFF"

definition MAX_INT_48 :: int where "MAX_INT_48 = 140737488355327"
definition MIN_INT_48 :: int where "MIN_INT_48 = - 140737488355328"

subsection \<open>Constructors\<close>

definition NewInt :: "64 word \<Rightarrow> Value" where
  "NewInt i = (let i48 = i AND PAYLOAD_MASK
               in QNAN_BASE OR push_bit TAG_SHIFT TAG_INT OR i48)"

definition NewBool :: "bool \<Rightarrow> Value" where
  "NewBool b = (let val = (if b then 1 else 0)
                in QNAN_BASE OR push_bit TAG_SHIFT TAG_BOOL OR val)"

definition NewNothing :: "Value" where
  "NewNothing = QNAN_BASE OR push_bit TAG_SHIFT TAG_NOTHING"

text \<open>
  A \<open>*string\<close> is an address; \<open>NewString\<close> keeps its low 48 bits.
\<close>

definition NewString :: "64 word \<Rightarrow> Value" where
  "NewString s = (let ptr = s AND PAYLOAD_MASK
                  in QNAN_BASE OR push_bit TAG_SHIFT TAG_STRING OR ptr)"

definition NewBuiltin :: "int \<Rightarrow> Value" where
  "NewBuiltin index = QNAN_BASE OR push_bit TAG_SHIFT TAG_BUILTIN OR word_of_int index"

subsection \<open>Tag tests\<close>

definition GetTag :: "Value \<Rightarrow> 8 word" where
  "GetTag v = ucast (drop_bit TAG_SHIFT v AND TAG_MASK)"

definition IsInt :: "Value \<Rightarrow> bool" where "IsInt v = (GetTag v = ucast TAG_INT)"
definition IsBool :: "Value \<Rightarrow> bool" where "IsBool v = (GetTag v = ucast TAG_BOOL)"
definition IsNothing :: "Value \<Rightarrow> bool" where "IsNothing v = (GetTag v = ucast TAG_NOTHING)"
definition IsString :: "Value \<Rightarrow> bool" where "IsString v = (GetTag v = ucast TAG_STRING)"
definition IsFunc :: "Value \<Rightarrow> bool" where "IsFunc v = (GetTag v = ucast TAG_FUNC)"
definition IsBuiltin :: "Value \<Rightarrow> bool" where "IsBuiltin v = (GetTag v = ucast TAG_BUILTIN)"
definition IsError :: "Value \<Rightarrow> bool" where "IsError v = (GetTag v = ucast TAG_ERROR)"

subsection \<open>Payload extraction\<close>

definition AsInt :: "Value \<Rightarrow> 64 word" where
  "AsInt v = (let i48 = v AND PAYLOAD_MASK
              in if i48 AND 0x800000000000 \<noteq> 0 then i48 OR NOT PAYLOAD_MASK else i48)"

definition AsBool :: "Value \<Rightarrow> bool" where
  "AsBool v = (v AND 1 \<noteq> 0)"

definition AsString :: "Value \<Rightarrow> 64 word" where
  "AsString v = v AND PAYLOAD_MASK"

definition AsBuiltin :: "Value \<Rightarrow> int" where
  "AsBuiltin v = sint (v AND PAYLOAD_MASK)"

subsection \<open>Type names\<close>

definition TypeName :: "Value \<Rightarrow> string" where
  "TypeName v =
     (if GetTag v = ucast TAG_INT then ''number''
      else if GetTag v = ucast TAG_BOOL then ''boolean''
      else if GetTag v = ucast TAG_NOTHING then ''nothing''
      else if GetTag v = ucast TAG_STRING then ''string''
      else if GetTag v = ucast TAG_FUNC then ''function''
      else if GetTag v = ucast TAG_BUILTIN then ''builtin''
      else if GetTag v = ucast TAG_ERROR then ''error''
      else ''unknown'')"

subsection \<open>Truthiness\<close>

definition IsFalsey :: "Value \<Rightarrow> bool" where
  "IsFalsey v = (if IsBool v then \<not> AsBool v else if IsNothing v then True else False)"

definition IsTruthy :: "Value \<Rightarrow> bool" where
  "IsTruthy v = (\<not> IsFalsey v)"

section \<open>Formatting helpers\<close>

text \<open>\<open>fmt.Sprintf("%d", n)\<close>: the decimal numeral of an integer.\<close>

fun dec_nat :: "nat \<Rightarrow> string" where
  "dec_nat n =
     (if n < 10 then [''0123456789'' ! n]
      else dec_nat (n div 10) @ [''0123456789'' ! (n mod 10)])"

declare dec_nat.simps [simp del]

definition fmt_d :: "int \<Rightarrow> string" where
  "fmt_d i = (if i < 0 then CHR ''-'' # dec_nat (nat (- i)) else dec_nat (nat i))"

section \<open>Opcodes (package vm, opcode.go)\<close>

type_synonym Opcode = "8 word"

definition OP_CONST_0 :: Opcode where "OP_CONST_0 = 0"
definition OP_CONST_1 :: Opcode where "OP_CONST_1 = 1"
definition OP_CONST_MINUS1 :: Opcode where "OP_CONST_MINUS1 = 2"
definition OP_NOTHING :: Opcode where "OP_NOTHING = 3"
definition OP_TRU :: Opcode where "OP_TRU = 4"
definition OP_LIE :: Opcode where "OP_LIE = 5"
definition OP_CONSTANT :: Opcode where "OP_CONSTANT = 6"
definition OP_CONST_I8 :: Opcode where "OP_CONST_I8 = 7"
definition OP_CONST_I16 :: Opcode where "OP_CONST_I16 = 8"
definition OP_ADD :: Opcode where "OP_ADD = 10"
definition OP_SUB :: Opcode where "OP_SUB = 11"
definition OP_MUL :: Opcode where "OP_MUL = 12"
definition OP_DIV :: Opcode where "OP_DIV = 13"
definition OP_NEGATE :: Opcode where "OP_NEGATE = 14"
definition OP_EQUAL :: Opcode where "OP_EQUAL = 20"
definition OP_NOT_EQUAL :: Opcode where "OP_NOT_EQUAL = 21"
definition OP_GREATER :: Opcode where "OP_GREATER = 22"
definition OP_LESS :: Opcode where "OP_LESS = 23"
definition OP_NOT :: Opcode where "OP_NOT = 30"
definition OP_GET_LOCAL_0 :: Opcode where "OP_GET_LOCAL_0 = 35"
definition OP_GET_LOCAL_1 :: Opcode where "OP_GET_LOCAL_1 = 36"
definition OP_GET_LOCAL_2 :: Opcode where "OP_GET_LOCAL_2 = 37"
definition OP_GET_LOCAL_3 :: Opcode where "OP_GET_LOCAL_3 = 38"
definition OP_GET_LOCAL :: Opcode where "OP_GET_LOCAL = 39"
definition OP_SET_LOCAL_0 :: Opcode where "OP_SET_LOCAL_0 = 40"
definition OP_SET_LOCAL_1 :: Opcode where "OP_SET_LOCAL_1 = 41"
definition OP_SET_LOCAL :: Opcode where "OP_SET_LOCAL = 42"
definition OP_GET_GLOBAL :: Opcode where "OP_GET_GLOBAL = 43"
definition OP_SET_GLOBAL :: Opcode where "OP_SET_GLOBAL = 44"
definition OP_JUMP :: Opcode where "OP_JUMP = 45"
definition OP_JUMP_IF_LIE :: Opcode where "OP_JUMP_IF_LIE = 46"
definition OP_JUMP_IF_TRU :: Opcode where "OP_JUMP_IF_TRU = 47"
definition OP_LOOP :: Opcode where "OP_LOOP = 48"
definition OP_CALL_0 :: Opcode where "OP_CALL_0 = 55"
definition OP_CALL_1 :: Opcode where "OP_CALL_1 = 56"
definition OP_CALL_2 :: Opcode where "OP_CALL_2 = 57"
definition OP_CALL :: Opcode where "OP_CALL = 58"
definition OP_CLOSURE :: Opcode where "OP_CLOSURE = 59"
definition OP_RETURN :: Opcode where "OP_RETURN = 60"
definition OP_BRING :: Opcode where "OP_BRING = 61"
definition OP_YARN :: Opcode where "OP_YARN = 65"
definition OP_BUILTIN :: Opcode where "OP_BUILTIN = 66"
definition OP_POP :: Opcode where "OP_POP = 75"
definition OP_DUP :: Opcode where "OP_DUP = 76"
definition OP_CONCAT :: Opcode where "OP_CONCAT = 80"
definition OP_HALT :: Opcode where "OP_HALT = 85"

section \<open>Chunk (package vm, chunk.go)\<close>

text \<open>
  The Go struct has the fields \<open>Code\<close>, \<open>Constants\<close>, \<open>Lines\<close> and \<open>strings\<close>. The
  intern table \<open>strings\<close> maps a content to a \<open>*string\<close>. The string objects those
  pointers refer to are made by \<open>new(string)\<close> inside \<open>InternString\<close> and nowhere else,
  so the part of Go's heap that string values can point into is kept here as the field
  \<open>cells\<close>: the \<open>k\<close>-th object allocated has the address \<open>k + 1\<close> (non-nil, and
  distinct from every other one; the program never looks at the number itself).
\<close>

record Chunk =
  Code :: "8 word list"
  Constants :: "Value list"
  Lines :: "int list"
  strings :: "string \<rightharpoonup> 64 word"
  cells :: "string list"

definition NewChunk :: Chunk where
  "NewChunk = \<lparr>Code = [], Constants = [], Lines = [], strings = Map.empty, cells = []\<rparr>"

text \<open>
  Reading through a \<open>*string\<close>; \<open>None\<close> stands for the fault of following an address
  that holds no string object.
\<close>

definition deref :: "Chunk \<Rightarrow> 64 word \<Rightarrow> string option" where
  "deref c p =
     (if p \<noteq> 0 \<and> unat p \<le> length (cells c) then Some (cells c ! (unat p - 1)) else None)"

definition WriteByte :: "Chunk \<Rightarrow> 8 word \<Rightarrow> int \<Rightarrow> Chunk" where
  "WriteByte c b line = c\<lparr>Code := Code c @ [b], Lines := Lines c @ [line]\<rparr>"

definition WriteOpcode :: "Chunk \<Rightarrow> Opcode \<Rightarrow> int \<Rightarrow> Chunk" where
  "WriteOpcode c op line = WriteByte c op line"

definition Count :: "Chunk \<Rightarrow> int" where
  "Count c = int (length (Code c))"

definition InternString :: "Chunk \<Rightarrow> string \<Rightarrow> 64 word \<times> Chunk" where
  "InternString c s =
     (case strings c s of
        Some existing \<Rightarrow> (existing, c)
      | None \<Rightarrow>
          (let ptr = word_of_nat (length (cells c) + 1)
           in (ptr, c\<lparr>strings := (strings c)(s \<mapsto> ptr), cells := cells c @ [s]\<rparr>)))"

subsection \<open>String form and equality of values\<close>

text \<open>
  \<open>Value.String\<close> and \<open>Value.Equals\<close> follow string pointers, so they read the
  chunk's cells. Neither compiler nor VM ever allocates a \<open>Function\<close> or a
  \<open>RuntimeError\<close> object, so a value tagged function or error points at nothing and
  its string form is the fault \<open>None\<close>.
\<close>

definition Value_String :: "Chunk \<Rightarrow> Value \<Rightarrow> string option" where
  "Value_String c v =
     (if GetTag v = ucast TAG_INT then Some (fmt_d (sint (AsInt v)))
      else if GetTag v = ucast TAG_BOOL then Some (if AsBool v then ''tru'' else ''lie'')
      else if GetTag v = ucast TAG_NOTHING then Some ''nothing''
      else if GetTag v = ucast TAG_STRING then deref c (AsString v)
      else if GetTag v = ucast TAG_FUNC then None
      else if GetTag v = ucast TAG_BUILTIN then Some (''<builtin '' @ fmt_d (AsBuiltin v) @ ''>'')
      else if GetTag v = ucast TAG_ERROR then None
      else Some ''<unknown>'')"

definition Equals :: "Chunk \<Rightarrow> Value \<Rightarrow> Value \<Rightarrow> bool option" where
  "Equals c v other =
     (if v = other then Some True
      else if GetTag v \<noteq> GetTag other then Some False
      else if IsString v then
        (case deref c (AsString v) of
           None \<Rightarrow> None
         | Some a \<Rightarrow> (case deref c (AsString other) of None \<Rightarrow> None | Some b \<Rightarrow> Some (a = b)))
      else Some False)"

subsection \<open>Constant pool\<close>

text \<open>
  The scan of \<open>AddConstant\<close>: \<open>Some (Some i)\<close> when entry \<open>i\<close> equals the value,
  \<open>Some None\<close> when no entry does, \<open>None\<close> on a pointer fault.
\<close>

fun scan_constants :: "Chunk \<Rightarrow> Value list \<Rightarrow> int \<Rightarrow> Value \<Rightarrow> int option option" where
  "scan_constants c [] i val = Some None"
| "scan_constants c (existing # rest) i val =
     (case Equals c existing val of
        None \<Rightarrow> None
      | Some True \<Rightarrow> Some (Some i)
      | Some False \<Rightarrow> scan_constants c rest (i + 1) val)"

definition AddConstant :: "Chunk \<Rightarrow> Value \<Rightarrow> (int \<times> Chunk) option" where
  "AddConstant c val =
     (case scan_constants c (Constants c) 0 val of
        None \<Rightarrow> None
      | Some (Some i) \<Rightarrow> Some (i, c)
      | Some None \<Rightarrow>
          (let c' = c\<lparr>Constants := Constants c @ [val]\<rparr>
           in Some (int (length (Constants c')) - 1, c')))"

definition GetConstant :: "Chunk \<Rightarrow> int \<Rightarrow> Value" where
  "GetConstant c index =
     (if index < 0 \<or> index \<ge> int (length (Constants c)) then NewNothing
      else Constants c ! nat index)"

definition GetLine :: "Chunk \<Rightarrow> int \<Rightarrow> int" where
  "GetLine c offset =
     (if offset < 0 \<or> offset \<ge> int (length (Lines c)) then 0 else Lines c ! nat offset)"

section \<open>Symbol table (package compiler, symbol_table.go)\<close>

datatype SymbolScope = SCOPE_GLOBAL | SCOPE_LOCAL | SCOPE_UPVALUE | SCOPE_BUILTIN

record Symbol =
  Name :: string
  Scope :: SymbolScope
  Index :: int

text \<open>Go's zero value \<open>Symbol{}\<close>.\<close>

definition zero_Symbol :: Symbol where
  "zero_Symbol = \<lparr>Name = [], Scope = SCOPE_GLOBAL, Index = 0\<rparr>"

datatype SymbolTable =
  SymbolTable (outer: "SymbolTable option") (store: "string \<rightharpoonup> Symbol") (numDefinitions: int)

definition NewSymbolTable :: SymbolTable where
  "NewSymbolTable = SymbolTable None Map.empty 0"

definition NewEnclosedSymbolTable :: "SymbolTable \<Rightarrow> SymbolTable" where
  "NewEnclosedSymbolTable out = SymbolTable (Some out) Map.empty 0"

definition Define :: "SymbolTable \<Rightarrow> string \<Rightarrow> Symbol \<times> SymbolTable" where
  "Define st name =
     (let symbol = \<lparr>Name = name,
                    Scope = (if outer st = None then SCOPE_GLOBAL else SCOPE_LOCAL),
                    Index = numDefinitions st\<rparr>
      in (symbol, SymbolTable (outer st) ((store st)(name \<mapsto> symbol)) (numDefinitions st + 1)))"

definition DefineBuiltin :: "SymbolTable \<Rightarrow> int \<Rightarrow> string \<Rightarrow> Symbol \<times> SymbolTable" where
  "DefineBuiltin st index name =
     (let symbol = \<lparr>Name = name, Scope = SCOPE_BUILTIN, Index = index\<rparr>
      in (symbol, SymbolTable (outer st) ((store st)(name \<mapsto> symbol)) (numDefinitions st)))"

fun Resolve :: "SymbolTable \<Rightarrow> string \<Rightarrow> Symbol \<times> bool" where
  "Resolve (SymbolTable out sto n) name =
     (case sto name of
        Some symbol \<Rightarrow> (symbol, True)
      | None \<Rightarrow>
          (case out of
             Some st' \<Rightarrow>
               (case Resolve st' name of
                  (symbol, ok) \<Rightarrow>
                    if \<not> ok then (symbol, False)
                    else if Scope symbol = SCOPE_LOCAL then (symbol, True)
                    else (symbol, True))
           | None \<Rightarrow> (zero_Symbol, False)))"

section \<open>Syntax tree (packages token and ast)\<close>

record Token =
  Type :: string
  Literal :: string
  Line :: int

text \<open>
  One constructor per node struct, fields in the order of the Go declaration. The Go
  fields of type \<open>*BlockStatement\<close> keep that type; a pointer the compiler tests
  against \<open>nil\<close> (\<open>ReturnValue\<close>, \<open>Alternative\<close>, the name of a function) is an
  option. \<open>Ident\<close> is the struct \<open>ast.Identifier\<close> where it is not used as an
  expression.
\<close>

datatype Ident = Ident Token string

datatype Expression =
    Identifier Token string
  | IntegerLiteral Token "64 word"
  | StringLiteral Token string
  | Boolean Token bool
  | NothingLiteral Token
  | PrefixExpression Token string Expression
  | InfixExpression Token Expression string Expression
  | SupposeExpression Token Expression BlockStatement "BlockStatement option"
  | WhileExpression Token Expression BlockStatement
  | DoExpression Token "Ident option" "Ident list" BlockStatement
  | CallExpression Token Expression "Expression list"
and Statement =
    MakeStatement Token Ident Expression
  | BringStatement Token "Expression option"
  | ExpressionStatement Token Expression
  | BlockStmt BlockStatement
and BlockStatement =
    BlockStatement Token "Statement list"

record Program =
  Statements :: "Statement list"

section \<open>Compiler (package compiler, compiler.go)\<close>

record Compiler =
  chunk :: Chunk
  symbolTable :: SymbolTable
  scopeDepth :: int
  constants :: "string \<rightharpoonup> int"

text \<open>
  What a compiler function can end with besides success: the \<open>error\<close> it returns, a
  \<open>panic\<close>, or the fault of reading through a bad string pointer.
\<close>

datatype compile_failure = CompileError string | CompilePanic string | CompileFault

definition New :: Compiler where
  "New =
     (let symbolTable0 = NewSymbolTable;
          symbolTable1 = snd (DefineBuiltin symbolTable0 0 ''yarn'');
          symbolTable2 = snd (DefineBuiltin symbolTable1 1 ''len'');
          symbolTable3 = snd (DefineBuiltin symbolTable2 2 ''type'')
      in \<lparr>chunk = NewChunk, symbolTable = symbolTable3, scopeDepth = 0,
          constants = Map.empty\<rparr>)"

subsection \<open>Code generation helpers\<close>

text \<open>Each helper returns the position it reports together with the updated compiler.\<close>

definition emit :: "Compiler \<Rightarrow> Opcode \<Rightarrow> int \<times> Compiler" where
  "emit c op = (let pos = Count (chunk c) in (pos, c\<lparr>chunk := WriteOpcode (chunk c) op 0\<rparr>))"

definition emitByte :: "Compiler \<Rightarrow> Opcode \<Rightarrow> 8 word \<Rightarrow> int \<times> Compiler" where
  "emitByte c op operand =
     (case emit c op of (pos, c1) \<Rightarrow> (pos, c1\<lparr>chunk := WriteByte (chunk c1) operand 0\<rparr>))"

fun write_operands :: "Chunk \<Rightarrow> 8 word list \<Rightarrow> Chunk" where
  "write_operands ch [] = ch"
| "write_operands ch (b # bs) = write_operands (WriteByte ch b 0) bs"

definition emitBytes :: "Compiler \<Rightarrow> Opcode \<Rightarrow> 8 word list \<Rightarrow> int \<times> Compiler" where
  "emitBytes c op operands =
     (case emit c op of (pos, c1) \<Rightarrow> (pos, c1\<lparr>chunk := write_operands (chunk c1) operands\<rparr>))"

definition emitShort :: "Compiler \<Rightarrow> Opcode \<Rightarrow> 16 word \<Rightarrow> int \<times> Compiler" where
  "emitShort c op operand =
     (case emit c op of
        (pos, c1) \<Rightarrow>
          (let ch1 = WriteByte (chunk c1) (ucast (drop_bit 8 operand)) 0;
               ch2 = WriteByte ch1 (ucast (operand AND 0xFF)) 0
           in (pos, c1\<lparr>chunk := ch2\<rparr>)))"

definition emitJump :: "Compiler \<Rightarrow> Opcode \<Rightarrow> int \<times> Compiler" where
  "emitJump c op =
     (let c1 = snd (emit c op);
          ch1 = WriteByte (chunk c1) 0xFF 0;
          ch2 = WriteByte ch1 0xFF 0
      in (Count ch2 - 2, c1\<lparr>chunk := ch2\<rparr>))"

definition patchJump :: "Compiler \<Rightarrow> int \<Rightarrow> compile_failure + Compiler" where
  "patchJump c offset =
     (let jump = Count (chunk c) - offset - 2
      in if jump > 65535 then Inl (CompilePanic ''Too much code to jump over'')
         else if offset < 0 \<or> offset + 1 \<ge> Count (chunk c)
           then Inl (CompilePanic ''index out of range'')
         else Inr (c\<lparr>chunk := (chunk c)\<lparr>Code :=
                 (Code (chunk c))[nat offset := word_of_int (drop_bit 8 jump),
                                  nat (offset + 1) := word_of_int (jump AND 0xFF)]\<rparr>\<rparr>))"

definition emitLoop :: "Compiler \<Rightarrow> int \<Rightarrow> compile_failure + Compiler" where
  "emitLoop c loopStart =
     (let c1 = snd (emit c OP_LOOP);
          offset = Count (chunk c1) - loopStart + 2
      in if offset > 65535 then Inl (CompilePanic ''Loop body too large'')
         else (let ch1 = WriteByte (chunk c1) (word_of_int (drop_bit 8 offset)) 0;
                   ch2 = WriteByte ch1 (word_of_int (offset AND 0xFF)) 0
               in Inr (c1\<lparr>chunk := ch2\<rparr>)))"

definition addConstant :: "Compiler \<Rightarrow> Value \<Rightarrow> compile_failure + (int \<times> Compiler)" where
  "addConstant c val =
     (case Value_String (chunk c) val of
        None \<Rightarrow> Inl CompileFault
      | Some key \<Rightarrow>
          (case constants c key of
             Some idx \<Rightarrow> Inr (idx, c)
           | None \<Rightarrow>
               (case AddConstant (chunk c) val of
                  None \<Rightarrow> Inl CompileFault
                | Some (idx, ch) \<Rightarrow>
                    Inr (idx, c\<lparr>chunk := ch, constants := (constants c)(key \<mapsto> idx)\<rparr>))))"

subsection \<open>Literals and identifiers\<close>

definition compileIntegerLiteral :: "64 word \<Rightarrow> Compiler \<Rightarrow> compile_failure + Compiler" where
  "compileIntegerLiteral val c =
     (if val = 0 then Inr (snd (emit c OP_CONST_0))
      else if val = 1 then Inr (snd (emit c OP_CONST_1))
      else if val = - 1 then Inr (snd (emit c OP_CONST_MINUS1))
      else if sint val \<ge> - 128 \<and> sint val \<le> 127
        then Inr (snd (emitByte c OP_CONST_I8 (ucast val)))
      else if sint val \<ge> - 32768 \<and> sint val \<le> 32767
        then Inr (snd (emitShort c OP_CONST_I16 (ucast val)))
      else
        (case addConstant c (NewInt val) of
           Inl e \<Rightarrow> Inl e
         | Inr (idx, c1) \<Rightarrow> Inr (snd (emitShort c1 OP_CONSTANT (word_of_int idx)))))"

definition compileStringLiteral :: "string \<Rightarrow> Compiler \<Rightarrow> compile_failure + Compiler" where
  "compileStringLiteral val c =
     (case InternString (chunk c) val of
        (strPtr, ch) \<Rightarrow>
          (case addConstant (c\<lparr>chunk := ch\<rparr>) (NewString strPtr) of
             Inl e \<Rightarrow> Inl e
           | Inr (idx, c1) \<Rightarrow> Inr (snd (emitShort c1 OP_CONSTANT (word_of_int idx)))))"

definition compileBooleanLiteral :: "bool \<Rightarrow> Compiler \<Rightarrow> compile_failure + Compiler" where
  "compileBooleanLiteral val c =
     (if val then Inr (snd (emit c OP_TRU)) else Inr (snd (emit c OP_LIE)))"

definition compileIdentifier :: "string \<Rightarrow> Compiler \<Rightarrow> compile_failure + Compiler" where
  "compileIdentifier name c =
     (case Resolve (symbolTable c) name of
        (symbol, ok) \<Rightarrow>
          if \<not> ok then Inl (CompileError (''I no sabi dis one: '' @ name))
          else (case Scope symbol of
              SCOPE_GLOBAL \<Rightarrow>
                (case InternString (chunk c) name of
                   (nameStr, ch) \<Rightarrow>
                     (case addConstant (c\<lparr>chunk := ch\<rparr>) (NewString nameStr) of
                        Inl e \<Rightarrow> Inl e
                      | Inr (idx, c1) \<Rightarrow>
                          Inr (snd (emitShort c1 OP_GET_GLOBAL (word_of_int idx)))))
            | SCOPE_LOCAL \<Rightarrow>
                (if Index symbol = 0 then Inr (snd (emit c OP_GET_LOCAL_0))
                 else if Index symbol = 1 then Inr (snd (emit c OP_GET_LOCAL_1))
                 else if Index symbol = 2 then Inr (snd (emit c OP_GET_LOCAL_2))
                 else if Index symbol = 3 then Inr (snd (emit c OP_GET_LOCAL_3))
                 else Inr (snd (emitByte c OP_GET_LOCAL (word_of_int (Index symbol)))))
            | SCOPE_BUILTIN \<Rightarrow>
                (case addConstant c (NewBuiltin (Index symbol)) of
                   Inl e \<Rightarrow> Inl e
                 | Inr (idx, c1) \<Rightarrow>
                     Inr (snd (emitShort c1 OP_CONSTANT (word_of_int idx))))
            | SCOPE_UPVALUE \<Rightarrow> Inl (CompileError ''unknown symbol scope: UPVALUE'')))"

subsection \<open>Statements and expressions\<close>

text \<open>
  The callee test at the head of \<open>compileCallExpression\<close>: the name and index of the
  builtin when the callee is an identifier that resolves to one.
\<close>

definition builtin_callee :: "Expression \<Rightarrow> Compiler \<Rightarrow> (string \<times> int) option" where
  "builtin_callee function c =
     (case function of
        Identifier t val \<Rightarrow>
          (case Resolve (symbolTable c) val of
             (symbol, found) \<Rightarrow>
               if found \<and> Scope symbol = SCOPE_BUILTIN then Some (val, Index symbol) else None)
      | _ \<Rightarrow> None)"

text \<open>The tail of \<open>compileCallExpression\<close>: the call opcode for the argument count.\<close>

definition emitCall :: "Compiler \<Rightarrow> int \<Rightarrow> Compiler" where
  "emitCall c argCount =
     (if argCount = 0 then snd (emit c OP_CALL_0)
      else if argCount = 1 then snd (emit c OP_CALL_1)
      else if argCount = 2 then snd (emit c OP_CALL_2)
      else snd (emitByte c OP_CALL (word_of_int argCount)))"

text \<open>The tail of the \<open>MakeStatement\<close> case, after the value has been compiled.\<close>

definition emitMake :: "string \<Rightarrow> Compiler \<Rightarrow> compile_failure + Compiler" where
  "emitMake name c =
     (case Resolve (symbolTable c) name of
        (symbol0, exists) \<Rightarrow>
          (let (symbol, st) = (if \<not> exists then Define (symbolTable c) name
                               else (symbol0, symbolTable c));
               c1 = c\<lparr>symbolTable := st\<rparr>
           in if scopeDepth c = 0 then
                (case InternString (chunk c1) name of
                   (nameStr, ch) \<Rightarrow>
                     (case addConstant (c1\<lparr>chunk := ch\<rparr>) (NewString nameStr) of
                        Inl e \<Rightarrow> Inl e
                      | Inr (idx, c2) \<Rightarrow>
                          Inr (snd (emitShort c2 OP_SET_GLOBAL (word_of_int idx)))))
              else if Index symbol = 0 then Inr (snd (emit c1 OP_SET_LOCAL_0))
              else if Index symbol = 1 then Inr (snd (emit c1 OP_SET_LOCAL_1))
              else Inr (snd (emitByte c1 OP_SET_LOCAL (word_of_int (Index symbol))))))"

text \<open>
  \<open>compileExpression\<close> and \<open>compileStatement\<close> with the per-node functions they
  dispatch to written into their equations (\<open>compilePrefixExpression\<close>,
  \<open>compileInfixExpression\<close>, \<open>compileShortCircuitAnd\<close>, \<open>compileShortCircuitOr\<close>,
  \<open>compileSupposeExpression\<close>, \<open>compileWhileExpression\<close>, \<open>compileCallExpression\<close>,
  \<open>compileBuiltinCall\<close>). \<open>compileBlockStatement\<close> is the \<open>BlockStatement\<close> case of
  \<open>compileStatement\<close>, which is where a call on a \<open>*BlockStatement\<close> always lands;
  \<open>compileStatements\<close> is its loop and \<open>compileArguments\<close> the loop over call
  arguments. There is no case for \<open>DoExpression\<close>: it falls to the default branch.
\<close>

fun compileExpression :: "Expression \<Rightarrow> Compiler \<Rightarrow> compile_failure + Compiler"
  and compileStatement :: "Statement \<Rightarrow> Compiler \<Rightarrow> compile_failure + Compiler"
  and compileBlockStatement :: "BlockStatement \<Rightarrow> Compiler \<Rightarrow> compile_failure + Compiler"
  and compileStatements :: "Statement list \<Rightarrow> Compiler \<Rightarrow> compile_failure + Compiler"
  and compileArguments :: "Expression list \<Rightarrow> Compiler \<Rightarrow> compile_failure + Compiler"
where
  "compileExpression (IntegerLiteral t val) c = compileIntegerLiteral val c"
| "compileExpression (StringLiteral t val) c = compileStringLiteral val c"
| "compileExpression (Boolean t val) c = compileBooleanLiteral val c"
| "compileExpression (NothingLiteral t) c = Inr (snd (emit c OP_NOTHING))"
| "compileExpression (Identifier t val) c = compileIdentifier val c"
| "compileExpression (PrefixExpression t operator right) c =
     (case compileExpression right c of
        Inl e \<Rightarrow> Inl e
      | Inr c1 \<Rightarrow>
          if operator = ''-'' then Inr (snd (emit c1 OP_NEGATE))
          else if operator = ''!'' \<or> operator = ''no'' then Inr (snd (emit c1 OP_NOT))
          else if operator = ''no be'' then Inr (snd (emit c1 OP_NOT))
          else Inl (CompileError (''unknown prefix operator: '' @ operator)))"
| "compileExpression (InfixExpression t left operator right) c =
     (if operator = ''and'' then
        (case compileExpression left c of
           Inl e \<Rightarrow> Inl e
         | Inr c1 \<Rightarrow>
             (case emitJump (snd (emit c1 OP_DUP)) OP_JUMP_IF_LIE of
                (jumpIfFalse, c2) \<Rightarrow>
                  (case compileExpression right (snd (emit c2 OP_POP)) of
                     Inl e \<Rightarrow> Inl e
                   | Inr c3 \<Rightarrow> patchJump c3 jumpIfFalse)))
      else if operator = ''abi'' \<or> operator = ''or'' then
        (case compileExpression left c of
           Inl e \<Rightarrow> Inl e
         | Inr c1 \<Rightarrow>
             (case emitJump (snd (emit c1 OP_DUP)) OP_JUMP_IF_TRU of
                (jumpIfTrue, c2) \<Rightarrow>
                  (case compileExpression right (snd (emit c2 OP_POP)) of
                     Inl e \<Rightarrow> Inl e
                   | Inr c3 \<Rightarrow> patchJump c3 jumpIfTrue)))
      else
        (case compileExpression left c of
           Inl e \<Rightarrow> Inl e
         | Inr c1 \<Rightarrow>
             (case compileExpression right c1 of
                Inl e \<Rightarrow> Inl e
              | Inr c2 \<Rightarrow>
                  if operator = ''+'' then Inr (snd (emit c2 OP_ADD))
                  else if operator = ''-'' then Inr (snd (emit c2 OP_SUB))
                  else if operator = ''*'' then Inr (snd (emit c2 OP_MUL))
                  else if operator = ''/'' then Inr (snd (emit c2 OP_DIV))
                  else if operator = ''be'' \<or> operator = ''na'' \<or> operator = ''==''
                    then Inr (snd (emit c2 OP_EQUAL))
                  else if operator = ''no be'' \<or> operator = ''!=''
                    then Inr (snd (emit c2 OP_NOT_EQUAL))
                  else if operator = ''big pass'' \<or> operator = ''>''
                    then Inr (snd (emit c2 OP_GREATER))
                  else if operator = ''no reach'' \<or> operator = ''<''
                    then Inr (snd (emit c2 OP_LESS))
                  else Inl (CompileError (''unknown infix operator: '' @ operator)))))"
| "compileExpression (SupposeExpression t condition consequence alternative) c =
     (case compileExpression condition c of
        Inl e \<Rightarrow> Inl e
      | Inr c1 \<Rightarrow>
          (case emitJump c1 OP_JUMP_IF_LIE of
             (jumpIfFalse, c2) \<Rightarrow>
               (case compileBlockStatement consequence c2 of
                  Inl e \<Rightarrow> Inl e
                | Inr c3 \<Rightarrow>
                    (case emitJump c3 OP_JUMP of
                       (jumpEnd, c4) \<Rightarrow>
                         (case patchJump c4 jumpIfFalse of
                            Inl e \<Rightarrow> Inl e
                          | Inr c5 \<Rightarrow>
                              (case (case alternative of
                                       Some alt \<Rightarrow> compileBlockStatement alt c5
                                     | None \<Rightarrow> Inr (snd (emit c5 OP_NOTHING))) of
                                 Inl e \<Rightarrow> Inl e
                               | Inr c6 \<Rightarrow> patchJump c6 jumpEnd))))))"
| "compileExpression (WhileExpression t condition body) c =
     (let loopStart = Count (chunk c)
      in case compileExpression condition c of
           Inl e \<Rightarrow> Inl e
         | Inr c1 \<Rightarrow>
             (case emitJump c1 OP_JUMP_IF_LIE of
                (exitJump, c2) \<Rightarrow>
                  (case compileBlockStatement body c2 of
                     Inl e \<Rightarrow> Inl e
                   | Inr c3 \<Rightarrow>
                       (case emitLoop c3 loopStart of
                          Inl e \<Rightarrow> Inl e
                        | Inr c4 \<Rightarrow>
                            (case patchJump c4 exitJump of
                               Inl e \<Rightarrow> Inl e
                             | Inr c5 \<Rightarrow> Inr (snd (emit c5 OP_NOTHING)))))))"
| "compileExpression (CallExpression t function arguments) c =
     (case builtin_callee function c of
        Some (name, builtinIdx) \<Rightarrow>
          (case compileArguments arguments c of
             Inl e \<Rightarrow> Inl e
           | Inr c1 \<Rightarrow>
               if name = ''yarn''
               then Inr (snd (emitByte c1 OP_YARN (word_of_nat (length arguments))))
               else Inr (snd (emitBytes c1 OP_BUILTIN
                                [word_of_int builtinIdx, word_of_nat (length arguments)])))
      | None \<Rightarrow>
          (case compileArguments arguments c of
             Inl e \<Rightarrow> Inl e
           | Inr c1 \<Rightarrow>
               (case compileExpression function c1 of
                  Inl e \<Rightarrow> Inl e
                | Inr c2 \<Rightarrow> Inr (emitCall c2 (int (length arguments))))))"
| "compileExpression (DoExpression t name parameters body) c =
     Inl (CompileError ''unknown expression type: *ast.DoExpression'')"
| "compileStatement (ExpressionStatement t expression) c =
     (case compileExpression expression c of
        Inl e \<Rightarrow> Inl e
      | Inr c1 \<Rightarrow> Inr (snd (emit c1 OP_POP)))"
| "compileStatement (MakeStatement t (Ident nt name) val) c =
     (case compileExpression val c of
        Inl e \<Rightarrow> Inl e
      | Inr c1 \<Rightarrow> emitMake name c1)"
| "compileStatement (BringStatement t returnValue) c =
     (case (case returnValue of
              Some rv \<Rightarrow> compileExpression rv c
            | None \<Rightarrow> Inr (snd (emit c OP_NOTHING))) of
        Inl e \<Rightarrow> Inl e
      | Inr c1 \<Rightarrow> Inr (snd (emit c1 OP_BRING)))"
| "compileStatement (BlockStmt block) c = compileBlockStatement block c"
| "compileBlockStatement (BlockStatement t stmts) c = compileStatements stmts c"
| "compileStatements [] c = Inr c"
| "compileStatements (stmt # rest) c =
     (case (case stmt of
              ExpressionStatement t expression \<Rightarrow>
                if rest = [] then compileExpression expression c
                else compileStatement stmt c
            | _ \<Rightarrow> compileStatement stmt c) of
        Inl e \<Rightarrow> Inl e
      | Inr c1 \<Rightarrow> compileStatements rest c1)"
| "compileArguments [] c = Inr c"
| "compileArguments (arg # rest) c =
     (case compileExpression arg c of
        Inl e \<Rightarrow> Inl e
      | Inr c1 \<Rightarrow> compileArguments rest c1)"

definition compileStatementWithContext ::
  "Statement \<Rightarrow> bool \<Rightarrow> Compiler \<Rightarrow> compile_failure + Compiler" where
  "compileStatementWithContext stmt isLast c =
     (case stmt of
        ExpressionStatement t expression \<Rightarrow>
          if isLast then compileExpression expression c else compileStatement stmt c
      | _ \<Rightarrow> compileStatement stmt c)"

text \<open>The loop of \<open>Compile\<close> over the program's statements.\<close>

fun compileProgram :: "Statement list \<Rightarrow> Compiler \<Rightarrow> compile_failure + Compiler" where
  "compileProgram [] c = Inr c"
| "compileProgram (stmt # rest) c =
     (case compileStatementWithContext stmt (rest = []) c of
        Inl e \<Rightarrow> Inl e
      | Inr c1 \<Rightarrow> compileProgram rest c1)"

definition Compile :: "Compiler \<Rightarrow> Program \<Rightarrow> compile_failure + Chunk" where
  "Compile c program =
     (case compileProgram (Statements program) c of
        Inl e \<Rightarrow> Inl e
      | Inr c1 \<Rightarrow> Inr (chunk (snd (emit c1 OP_HALT))))"

section \<open>Virtual machine (package vm, vm.go)\<close>

definition STACK_MAX :: int where "STACK_MAX = 65536"
definition FRAMES_MAX :: int where "FRAMES_MAX = 1024"

text \<open>
  \<open>stack\<close> is the array \<open>[STACK_MAX]Value\<close>: every index from 0 to
  \<open>STACK_MAX - 1\<close> holds a value at all times, and an access outside that range is a
  Go panic (\<open>stack_get\<close> and \<open>stack_set\<close> below). The \<open>frames\<close> array is never
  read or written by the code and is left out. \<open>stdout\<close> collects what \<open>fmt.Print\<close>
  writes to standard output. Inside \<open>execute\<close> the fields \<open>stackTop\<close> and \<open>ip\<close>
  are the loop's local copies, which it stores back before every return.
\<close>

record VM =
  stack :: "nat \<Rightarrow> Value"
  stackTop :: int
  frameCount :: int
  globals :: "string \<rightharpoonup> Value"
  vm_chunk :: Chunk
  ip :: int
  stdout :: string

definition NewVM :: VM where
  "NewVM = \<lparr>stack = (\<lambda>_. 0), stackTop = 0, frameCount = 0, globals = Map.empty,
            vm_chunk = NewChunk, ip = 0, stdout = []\<rparr>"

definition Reset :: "VM \<Rightarrow> VM" where
  "Reset vm = vm\<lparr>stackTop := 0, frameCount := 0, ip := 0\<rparr>"

text \<open>
  One turn of the dispatch loop ends in one of three ways: the loop goes on, \<open>execute\<close>
  returns a value and an error (\<open>None\<close> for \<open>nil\<close>), or the Go runtime panics.
\<close>

datatype step_result =
    Continue VM
  | Returned Value "string option" VM
  | Panicked string

definition stack_get :: "VM \<Rightarrow> int \<Rightarrow> Value option" where
  "stack_get vm i = (if 0 \<le> i \<and> i < STACK_MAX then Some (stack vm (nat i)) else None)"

definition stack_set :: "VM \<Rightarrow> int \<Rightarrow> Value \<Rightarrow> VM option" where
  "stack_set vm i v =
     (if 0 \<le> i \<and> i < STACK_MAX then Some (vm\<lparr>stack := (stack vm)(nat i := v)\<rparr>) else None)"

text \<open>\<open>vm.stack[stackTop] = v; stackTop++\<close>, as the dispatch loop writes it.\<close>

definition push_inline :: "VM \<Rightarrow> Value \<Rightarrow> step_result" where
  "push_inline vm v =
     (case stack_set vm (stackTop vm) v of
        None \<Rightarrow> Panicked ''index out of range''
      | Some vm1 \<Rightarrow> Continue (vm1\<lparr>stackTop := stackTop vm1 + 1\<rparr>))"

text \<open>The methods \<open>push\<close>, \<open>pop\<close> and \<open>peek\<close>; the dispatch loop does not call them.\<close>

definition push :: "VM \<Rightarrow> Value \<Rightarrow> step_result" where
  "push vm v =
     (if stackTop vm \<ge> STACK_MAX then Panicked ''Stack overflow''
      else push_inline vm v)"

definition pop :: "VM \<Rightarrow> (Value \<times> VM) option" where
  "pop vm =
     (if stackTop vm \<le> 0 then None
      else (case stack_get vm (stackTop vm - 1) of
              None \<Rightarrow> None
            | Some v \<Rightarrow> Some (v, vm\<lparr>stackTop := stackTop vm - 1\<rparr>)))"

definition peek :: "VM \<Rightarrow> int \<Rightarrow> Value option" where
  "peek vm distance = stack_get vm (stackTop vm - 1 - distance)"

definition readByte :: "VM \<Rightarrow> (8 word \<times> VM) option" where
  "readByte vm =
     (let code = Code (vm_chunk vm)
      in if 0 \<le> ip vm \<and> ip vm < int (length code)
         then Some (code ! nat (ip vm), vm\<lparr>ip := ip vm + 1\<rparr>)
         else None)"

definition readShort :: "VM \<Rightarrow> (16 word \<times> VM) option" where
  "readShort vm =
     (let code = Code (vm_chunk vm)
      in if 0 \<le> ip vm \<and> ip vm + 1 < int (length code)
         then (let b1 = (ucast (code ! nat (ip vm)) :: 16 word);
                   b2 = (ucast (code ! nat (ip vm + 1)) :: 16 word)
               in Some (push_bit 8 b1 OR b2, vm\<lparr>ip := ip vm + 2\<rparr>))
         else None)"

definition valueToString :: "VM \<Rightarrow> Value \<Rightarrow> string option" where
  "valueToString vm v = Value_String (vm_chunk vm) v"

text \<open>
  \<open>runtimeError\<close> looks the line up and builds the error text; \<open>error_text\<close> is the
  text it builds for a message and a line.
\<close>

definition error_text :: "string \<Rightarrow> int \<Rightarrow> string" where
  "error_text message line =
     ''Wahala dey o! '' @ message @ '' [line '' @ fmt_d line @ '']'' @ [CHR 0x0A]"

definition runtimeError :: "VM \<Rightarrow> string \<Rightarrow> string" where
  "runtimeError vm message =
     (let line = (if ip vm > 0 \<and> ip vm \<le> int (length (Lines (vm_chunk vm)))
                  then Lines (vm_chunk vm) ! nat (ip vm - 1) else 0)
      in error_text message line)"

text \<open>Go's \<open>int64\<close> division truncates towards zero.\<close>

definition int64_div :: "64 word \<Rightarrow> 64 word \<Rightarrow> 64 word" where
  "int64_div a b = word_of_int (sint a sdiv sint b)"

text \<open>
  The head shared by the binary opcodes: \<open>b = stack[stackTop-1]\<close>,
  \<open>a = stack[stackTop-2]\<close>, \<open>stackTop -= 2\<close>.
\<close>

definition take_two :: "VM \<Rightarrow> (Value \<times> Value \<times> VM) option" where
  "take_two vm =
     (case stack_get vm (stackTop vm - 1) of
        None \<Rightarrow> None
      | Some b \<Rightarrow>
          (case stack_get vm (stackTop vm - 2) of
             None \<Rightarrow> None
           | Some a \<Rightarrow> Some (a, b, vm\<lparr>stackTop := stackTop vm - 2\<rparr>)))"

text \<open>The printing loop of \<open>OP_YARN\<close> over \<open>i = 0 .. argCount - 1\<close>.\<close>

fun yarn_print :: "VM \<Rightarrow> int \<Rightarrow> nat list \<Rightarrow> VM option" where
  "yarn_print vm argCount [] = Some vm"
| "yarn_print vm argCount (i # rest) =
     (case stack_get vm (stackTop vm - argCount + int i) of
        None \<Rightarrow> None
      | Some val \<Rightarrow>
          (case valueToString vm val of
             None \<Rightarrow> None
           | Some s \<Rightarrow> yarn_print (vm\<lparr>stdout := stdout vm @ s\<rparr>) argCount rest))"

subsection \<open>The cases of the dispatch switch\<close>

definition exec_CONST_I8 :: "VM \<Rightarrow> step_result" where
  "exec_CONST_I8 vm =
     (case readByte vm of
        None \<Rightarrow> Panicked ''index out of range''
      | Some (b, vm1) \<Rightarrow> push_inline vm1 (NewInt (scast b)))"

definition exec_CONST_I16 :: "VM \<Rightarrow> step_result" where
  "exec_CONST_I16 vm =
     (case readShort vm of
        None \<Rightarrow> Panicked ''index out of range''
      | Some (s, vm1) \<Rightarrow> push_inline vm1 (NewInt (scast s)))"

definition exec_CONSTANT :: "VM \<Rightarrow> step_result" where
  "exec_CONSTANT vm =
     (case readShort vm of
        None \<Rightarrow> Panicked ''index out of range''
      | Some (idx, vm1) \<Rightarrow>
          if unat idx < length (Constants (vm_chunk vm1))
          then push_inline vm1 (Constants (vm_chunk vm1) ! unat idx)
          else Panicked ''index out of range'')"

definition exec_ADD :: "VM \<Rightarrow> step_result" where
  "exec_ADD vm =
     (case take_two vm of
        None \<Rightarrow> Panicked ''index out of range''
      | Some (a, b, vm1) \<Rightarrow>
          if IsInt a \<and> IsInt b then
            (let result = AsInt a + AsInt b in push_inline vm1 (NewInt result))
          else if IsString a \<or> IsString b then
            (case valueToString vm1 a of
               None \<Rightarrow> Panicked ''invalid memory address or nil pointer dereference''
             | Some strA \<Rightarrow>
                 (case valueToString vm1 b of
                    None \<Rightarrow> Panicked ''invalid memory address or nil pointer dereference''
                  | Some strB \<Rightarrow>
                      (case InternString (vm_chunk vm1) (strA @ strB) of
                         (interned, ch) \<Rightarrow>
                           push_inline (vm1\<lparr>vm_chunk := ch\<rparr>) (NewString interned))))
          else Returned NewNothing
                 (Some (runtimeError vm1
                    (''I no fit add '' @ TypeName a @ '' and '' @ TypeName b))) vm1)"

definition exec_SUB :: "VM \<Rightarrow> step_result" where
  "exec_SUB vm =
     (case take_two vm of
        None \<Rightarrow> Panicked ''index out of range''
      | Some (a, b, vm1) \<Rightarrow>
          if \<not> IsInt a \<or> \<not> IsInt b then
            Returned NewNothing
              (Some (runtimeError vm1
                 (''I no fit subtract '' @ TypeName a @ '' and '' @ TypeName b))) vm1
          else push_inline vm1 (NewInt (AsInt a - AsInt b)))"

definition exec_MUL :: "VM \<Rightarrow> step_result" where
  "exec_MUL vm =
     (case take_two vm of
        None \<Rightarrow> Panicked ''index out of range''
      | Some (a, b, vm1) \<Rightarrow>
          if \<not> IsInt a \<or> \<not> IsInt b then
            Returned NewNothing
              (Some (runtimeError vm1
                 (''I no fit multiply '' @ TypeName a @ '' and '' @ TypeName b))) vm1
          else push_inline vm1 (NewInt (AsInt a * AsInt b)))"

definition exec_DIV :: "VM \<Rightarrow> step_result" where
  "exec_DIV vm =
     (case take_two vm of
        None \<Rightarrow> Panicked ''index out of range''
      | Some (a, b, vm1) \<Rightarrow>
          if \<not> IsInt a \<or> \<not> IsInt b then
            Returned NewNothing
              (Some (runtimeError vm1
                 (''I no fit divide '' @ TypeName a @ '' and '' @ TypeName b))) vm1
          else if AsInt b = 0 then
            Returned NewNothing (Some (runtimeError vm1 ''I no fit divide by zero o!'')) vm1
          else push_inline vm1 (NewInt (int64_div (AsInt a) (AsInt b))))"

definition exec_NEGATE :: "VM \<Rightarrow> step_result" where
  "exec_NEGATE vm =
     (case stack_get vm (stackTop vm - 1) of
        None \<Rightarrow> Panicked ''index out of range''
      | Some a \<Rightarrow>
          if \<not> IsInt a then
            Returned NewNothing
              (Some (runtimeError vm (''I no fit negate '' @ TypeName a))) vm
          else (case stack_set vm (stackTop vm - 1) (NewInt (- AsInt a)) of
                  None \<Rightarrow> Panicked ''index out of range''
                | Some vm1 \<Rightarrow> Continue vm1))"

definition exec_EQUAL :: "VM \<Rightarrow> step_result" where
  "exec_EQUAL vm =
     (case take_two vm of
        None \<Rightarrow> Panicked ''index out of range''
      | Some (a, b, vm1) \<Rightarrow>
          (case Equals (vm_chunk vm1) a b of
             None \<Rightarrow> Panicked ''invalid memory address or nil pointer dereference''
           | Some eq \<Rightarrow> push_inline vm1 (NewBool eq)))"

definition exec_NOT_EQUAL :: "VM \<Rightarrow> step_result" where
  "exec_NOT_EQUAL vm =
     (case take_two vm of
        None \<Rightarrow> Panicked ''index out of range''
      | Some (a, b, vm1) \<Rightarrow>
          (case Equals (vm_chunk vm1) a b of
             None \<Rightarrow> Panicked ''invalid memory address or nil pointer dereference''
           | Some eq \<Rightarrow> push_inline vm1 (NewBool (\<not> eq))))"

definition exec_GREATER :: "VM \<Rightarrow> step_result" where
  "exec_GREATER vm =
     (case take_two vm of
        None \<Rightarrow> Panicked ''index out of range''
      | Some (a, b, vm1) \<Rightarrow>
          if \<not> IsInt a \<or> \<not> IsInt b then
            Returned NewNothing
              (Some (runtimeError vm1
                 (''I no fit compare '' @ TypeName a @ '' and '' @ TypeName b))) vm1
          else push_inline vm1 (NewBool (sint (AsInt a) > sint (AsInt b))))"

definition exec_LESS :: "VM \<Rightarrow> step_result" where
  "exec_LESS vm =
     (case take_two vm of
        None \<Rightarrow> Panicked ''index out of range''
      | Some (a, b, vm1) \<Rightarrow>
          if \<not> IsInt a \<or> \<not> IsInt b then
            Returned NewNothing
              (Some (runtimeError vm1
                 (''I no fit compare '' @ TypeName a @ '' and '' @ TypeName b))) vm1
          else push_inline vm1 (NewBool (sint (AsInt a) < sint (AsInt b))))"

definition exec_NOT :: "VM \<Rightarrow> step_result" where
  "exec_NOT vm =
     (case stack_get vm (stackTop vm - 1) of
        None \<Rightarrow> Panicked ''index out of range''
      | Some a \<Rightarrow>
          (case stack_set vm (stackTop vm - 1) (NewBool (IsFalsey a)) of
             None \<Rightarrow> Panicked ''index out of range''
           | Some vm1 \<Rightarrow> Continue vm1))"

definition exec_DUP :: "VM \<Rightarrow> step_result" where
  "exec_DUP vm =
     (case stack_get vm (stackTop vm - 1) of
        None \<Rightarrow> Panicked ''index out of range''
      | Some v \<Rightarrow> push_inline vm v)"

text \<open>
  \<open>name := vm.chunk.Constants[idx].AsString()\<close> followed by the read \<open>*name\<close>:
  the pool index must be in range and the payload must point at a string object.
\<close>

definition global_name :: "VM \<Rightarrow> 16 word \<Rightarrow> string option" where
  "global_name vm idx =
     (if unat idx < length (Constants (vm_chunk vm))
      then deref (vm_chunk vm) (AsString (Constants (vm_chunk vm) ! unat idx))
      else None)"

definition exec_GET_GLOBAL :: "VM \<Rightarrow> step_result" where
  "exec_GET_GLOBAL vm =
     (case readShort vm of
        None \<Rightarrow> Panicked ''index out of range''
      | Some (idx, vm1) \<Rightarrow>
          (case global_name vm1 idx of
             None \<Rightarrow> Panicked ''index out of range or invalid memory address''
           | Some name \<Rightarrow>
               (case globals vm1 name of
                  None \<Rightarrow>
                    Returned NewNothing
                      (Some (runtimeError vm1 (''I no sabi dis one: '' @ name))) vm1
                | Some val \<Rightarrow> push_inline vm1 val)))"

definition exec_SET_GLOBAL :: "VM \<Rightarrow> step_result" where
  "exec_SET_GLOBAL vm =
     (case readShort vm of
        None \<Rightarrow> Panicked ''index out of range''
      | Some (idx, vm1) \<Rightarrow>
          (case global_name vm1 idx of
             None \<Rightarrow> Panicked ''index out of range or invalid memory address''
           | Some name \<Rightarrow>
               (case stack_get vm1 (stackTop vm1 - 1) of
                  None \<Rightarrow> Panicked ''index out of range''
                | Some v \<Rightarrow> Continue (vm1\<lparr>globals := (globals vm1)(name \<mapsto> v)\<rparr>))))"

definition exec_JUMP :: "VM \<Rightarrow> step_result" where
  "exec_JUMP vm =
     (case readShort vm of
        None \<Rightarrow> Panicked ''index out of range''
      | Some (offset, vm1) \<Rightarrow> Continue (vm1\<lparr>ip := ip vm1 + sint offset\<rparr>))"

definition exec_JUMP_IF_LIE :: "VM \<Rightarrow> step_result" where
  "exec_JUMP_IF_LIE vm =
     (case readShort vm of
        None \<Rightarrow> Panicked ''index out of range''
      | Some (offset, vm1) \<Rightarrow>
          (case stack_get vm1 (stackTop vm1 - 1) of
             None \<Rightarrow> Panicked ''index out of range''
           | Some condition \<Rightarrow>
               (let vm2 = vm1\<lparr>stackTop := stackTop vm1 - 1\<rparr>
                in if IsFalsey condition
                   then Continue (vm2\<lparr>ip := ip vm2 + sint offset\<rparr>)
                   else Continue vm2)))"

definition exec_JUMP_IF_TRU :: "VM \<Rightarrow> step_result" where
  "exec_JUMP_IF_TRU vm =
     (case readShort vm of
        None \<Rightarrow> Panicked ''index out of range''
      | Some (offset, vm1) \<Rightarrow>
          (case stack_get vm1 (stackTop vm1 - 1) of
             None \<Rightarrow> Panicked ''index out of range''
           | Some condition \<Rightarrow>
               (let vm2 = vm1\<lparr>stackTop := stackTop vm1 - 1\<rparr>
                in if IsTruthy condition
                   then Continue (vm2\<lparr>ip := ip vm2 + sint offset\<rparr>)
                   else Continue vm2)))"

definition exec_LOOP :: "VM \<Rightarrow> step_result" where
  "exec_LOOP vm =
     (case readShort vm of
        None \<Rightarrow> Panicked ''index out of range''
      | Some (offset, vm1) \<Rightarrow> Continue (vm1\<lparr>ip := ip vm1 - uint offset\<rparr>))"

definition exec_YARN :: "VM \<Rightarrow> step_result" where
  "exec_YARN vm =
     (case readByte vm of
        None \<Rightarrow> Panicked ''index out of range''
      | Some (argCount, vm1) \<Rightarrow>
          (case yarn_print vm1 (uint argCount) [0 ..< unat argCount] of
             None \<Rightarrow> Panicked ''index out of range or invalid memory address''
           | Some vm2 \<Rightarrow>
               (let vm3 = vm2\<lparr>stdout := stdout vm2 @ [CHR 0x0A]\<rparr>;
                    vm4 = vm3\<lparr>stackTop := stackTop vm3 - uint argCount\<rparr>
                in push_inline vm4 NewNothing)))"

definition exec_HALT :: "VM \<Rightarrow> step_result" where
  "exec_HALT vm =
     (if stackTop vm > 0 then
        (case stack_get vm (stackTop vm - 1) of
           None \<Rightarrow> Panicked ''index out of range''
         | Some v \<Rightarrow> Returned v None vm)
      else Returned NewNothing None vm)"

subsection \<open>The dispatch loop\<close>

text \<open>One turn of the loop in \<open>execute\<close>: fetch the opcode, then the switch.\<close>

definition step :: "VM \<Rightarrow> step_result" where
  "step vm0 =
     (case readByte vm0 of
        None \<Rightarrow> Panicked ''index out of range''
      | Some (instruction, vm) \<Rightarrow>
          if instruction = OP_CONST_0 then push_inline vm (NewInt 0)
          else if instruction = OP_CONST_1 then push_inline vm (NewInt 1)
          else if instruction = OP_CONST_MINUS1 then push_inline vm (NewInt (- 1))
          else if instruction = OP_NOTHING then push_inline vm NewNothing
          else if instruction = OP_TRU then push_inline vm (NewBool True)
          else if instruction = OP_LIE then push_inline vm (NewBool False)
          else if instruction = OP_CONST_I8 then exec_CONST_I8 vm
          else if instruction = OP_CONST_I16 then exec_CONST_I16 vm
          else if instruction = OP_CONSTANT then exec_CONSTANT vm
          else if instruction = OP_ADD then exec_ADD vm
          else if instruction = OP_SUB then exec_SUB vm
          else if instruction = OP_MUL then exec_MUL vm
          else if instruction = OP_DIV then exec_DIV vm
          else if instruction = OP_NEGATE then exec_NEGATE vm
          else if instruction = OP_EQUAL then exec_EQUAL vm
          else if instruction = OP_NOT_EQUAL then exec_NOT_EQUAL vm
          else if instruction = OP_GREATER then exec_GREATER vm
          else if instruction = OP_LESS then exec_LESS vm
          else if instruction = OP_NOT then exec_NOT vm
          else if instruction = OP_POP then Continue (vm\<lparr>stackTop := stackTop vm - 1\<rparr>)
          else if instruction = OP_DUP then exec_DUP vm
          else if instruction = OP_GET_GLOBAL then exec_GET_GLOBAL vm
          else if instruction = OP_SET_GLOBAL then exec_SET_GLOBAL vm
          else if instruction = OP_JUMP then exec_JUMP vm
          else if instruction = OP_JUMP_IF_LIE then exec_JUMP_IF_LIE vm
          else if instruction = OP_JUMP_IF_TRU then exec_JUMP_IF_TRU vm
          else if instruction = OP_LOOP then exec_LOOP vm
          else if instruction = OP_YARN then exec_YARN vm
          else if instruction = OP_HALT then exec_HALT vm
          else Returned NewNothing
                 (Some (runtimeError vm (''Unknown opcode: '' @ fmt_d (uint instruction)))) vm)"

text \<open>
  \<open>execute\<close> is the loop itself, which need not end. \<open>execute fuel vm\<close> runs at most
  \<open>fuel\<close> turns of it: \<open>Continue\<close> means the loop was still running when the fuel
  ran out, the other two results are those of the loop.
\<close>

fun execute :: "nat \<Rightarrow> VM \<Rightarrow> step_result" where
  "execute 0 vm = Continue vm"
| "execute (Suc fuel) vm =
     (case step vm of
        Continue vm1 \<Rightarrow> execute fuel vm1
      | Returned v err vm1 \<Rightarrow> Returned v err vm1
      | Panicked msg \<Rightarrow> Panicked msg)"

definition Run :: "nat \<Rightarrow> VM \<Rightarrow> Chunk \<Rightarrow> step_result" where
  "Run fuel vm ch = execute fuel ((Reset vm)\<lparr>vm_chunk := ch, ip := 0\<rparr>)"

text \<open>What \<open>Run\<close> hands back to its caller when it returns: the value and the error.\<close>

definition returned :: "step_result \<Rightarrow> (Value \<times> string option) option" where
  "returned r = (case r of Returned v err vm \<Rightarrow> Some (v, err) | _ \<Rightarrow> None)"

text \<open>
  \<open>compileAndRun\<close> of the integration tests, and \<open>runVM\<close> of the benchmarks, on an
  already parsed program: a fresh compiler, then a fresh VM.
\<close>

definition compileAndRun :: "nat \<Rightarrow> Program \<Rightarrow> compile_failure + step_result" where
  "compileAndRun fuel program =
     (case Compile New program of
        Inl err \<Rightarrow> Inl err
      | Inr ch \<Rightarrow> Inr (Run fuel NewVM ch))"

section \<open>Reference notions for the arithmetic claims\<close>

text \<open>
  \<open>wrap48 k\<close> is the representative of \<open>k\<close> modulo \<open>2 ^ 48\<close> in the range of a
  48-bit two's-complement integer; \<open>arith_op\<close> is the exact integer operation behind
  an arithmetic opcode.
\<close>

definition wrap48 :: "int \<Rightarrow> int" where
  "wrap48 k = (k + 2 ^ 47) mod 2 ^ 48 - 2 ^ 47"

definition arith_op :: "Opcode \<Rightarrow> int \<Rightarrow> int \<Rightarrow> int" where
  "arith_op op x y = (if op = OP_ADD then x + y else if op = OP_SUB then x - y else x * y)"

text \<open>
  A fresh VM loaded with a chunk whose code is \<open>code\<close>, about to execute its first
  byte with the values \<open>vals\<close> on the operand stack.
\<close>

definition example_vm :: "8 word list \<Rightarrow> Value list \<Rightarrow> VM" where
  "example_vm code vals =
     NewVM\<lparr>vm_chunk := NewChunk\<lparr>Code := code, Lines := map (\<lambda>_. 0) code\<rparr>,
           stack := (\<lambda>k. if k < length vals then vals ! k else 0),
           stackTop := int (length vals)\<rparr>"

text \<open>
  A VM about to run \<open>SET_GLOBAL 0; GET_GLOBAL 0; HALT\<close>, with the name \<open>x\<close> as
  constant 0 and the integer 42 on the operand stack.
\<close>

definition example_global_vm :: VM where
  "example_global_vm =
     (example_vm [OP_SET_GLOBAL, 0, 0, OP_GET_GLOBAL, 0, 0, OP_HALT] [NewInt 42])
       \<lparr>vm_chunk := \<lparr>Code = [OP_SET_GLOBAL, 0, 0, OP_GET_GLOBAL, 0, 0, OP_HALT],
                     Constants = [NewString 1], Lines = [0, 0, 0, 0, 0, 0, 0],
                     strings = [''x'' \<mapsto> 1], cells = [''x'']\<rparr>\<rparr>"

text \<open>
  A VM whose operand stack is full: 65536 values, \<open>stackTop\<close> at \<open>STACK_MAX\<close>, about
  to execute the first byte of \<open>code\<close>, with the name \<open>x\<close> as constant 0 and the
  global \<open>x\<close> defined.
\<close>

definition full_stack_vm :: "8 word list \<Rightarrow> VM" where
  "full_stack_vm code =
     (example_vm code (replicate 65536 (NewInt 7)))
       \<lparr>vm_chunk := \<lparr>Code = code, Constants = [NewString 1], Lines = map (\<lambda>_. 0) code,
                     strings = [''x'' \<mapsto> 1], cells = [''x'']\<rparr>,
        globals := [''x'' \<mapsto> NewInt 42]\<rparr>"

section \<open>Example programs with a loop\<close>

text \<open>
  The program \<open>dey do while lie { 1 1 ... 1 }\<close> with 16384 statements \<open>1\<close> in the
  body of the loop, as the parser builds it, and the chunk the compiler makes of it:
  the condition, the exit jump over 32770 bytes, the body (\<open>OP_CONST_1\<close> and
  \<open>OP_POP\<close> for each statement but the last, \<open>OP_CONST_1\<close> for the last), the jump
  back, \<open>OP_NOTHING\<close> and \<open>OP_HALT\<close>.
\<close>

definition one_statement :: Statement where
  "one_statement =
     ExpressionStatement \<lparr>Type = ''INT'', Literal = ''1'', Line = 1\<rparr>
       (IntegerLiteral \<lparr>Type = ''INT'', Literal = ''1'', Line = 1\<rparr> 1)"

definition long_loop_program :: Program where
  "long_loop_program =
     \<lparr>Statements =
        [ExpressionStatement \<lparr>Type = ''DEY'', Literal = ''dey'', Line = 1\<rparr>
           (WhileExpression \<lparr>Type = ''DEY'', Literal = ''dey'', Line = 1\<rparr>
              (Boolean \<lparr>Type = ''LIE'', Literal = ''lie'', Line = 1\<rparr> False)
              (BlockStatement \<lparr>Type = ''{'', Literal = ''{'', Line = 1\<rparr>
                 (replicate 16384 one_statement)))]\<rparr>"

definition long_loop_chunk :: Chunk where
  "long_loop_chunk =
     \<lparr>Code = [OP_LIE, OP_JUMP_IF_LIE, 0x80, 0x02]
              @ concat (replicate 16383 [OP_CONST_1, OP_POP])
              @ [OP_CONST_1, OP_LOOP, 0x80, 0x06, OP_NOTHING, OP_HALT],
      Constants = [], Lines = replicate 32776 0, strings = Map.empty, cells = []\<rparr>"

text \<open>
  The program \<open>make c be 0\<close>, \<open>dey do while c < 65536 { make c be c + 1 }\<close>, the
  chunk the compiler makes of it, and the state of the VM at the head of the loop
  (before the condition is evaluated) when the body has run \<open>i\<close> times: the counter
  is \<open>i\<close> and \<open>i + 1\<close> values lie on the operand stack.
\<close>

definition loop_program :: Program where
  "loop_program =
     \<lparr>Statements =
        [MakeStatement \<lparr>Type = ''MAKE'', Literal = ''make'', Line = 1\<rparr>
           (Ident \<lparr>Type = ''IDENT'', Literal = ''c'', Line = 1\<rparr> ''c'')
           (IntegerLiteral \<lparr>Type = ''INT'', Literal = ''0'', Line = 1\<rparr> 0),
         ExpressionStatement \<lparr>Type = ''DEY'', Literal = ''dey'', Line = 2\<rparr>
           (WhileExpression \<lparr>Type = ''DEY'', Literal = ''dey'', Line = 2\<rparr>
              (InfixExpression \<lparr>Type = ''<'', Literal = ''<'', Line = 2\<rparr>
                 (Identifier \<lparr>Type = ''IDENT'', Literal = ''c'', Line = 2\<rparr> ''c'')
                 ''<''
                 (IntegerLiteral \<lparr>Type = ''INT'', Literal = ''65536'', Line = 2\<rparr> 65536))
              (BlockStatement \<lparr>Type = ''{'', Literal = ''{'', Line = 2\<rparr>
                 [MakeStatement \<lparr>Type = ''MAKE'', Literal = ''make'', Line = 2\<rparr>
                    (Ident \<lparr>Type = ''IDENT'', Literal = ''c'', Line = 2\<rparr> ''c'')
                    (InfixExpression \<lparr>Type = ''+'', Literal = ''+'', Line = 2\<rparr>
                       (Identifier \<lparr>Type = ''IDENT'', Literal = ''c'', Line = 2\<rparr> ''c'')
                       ''+''
                       (IntegerLiteral \<lparr>Type = ''INT'', Literal = ''1'', Line = 2\<rparr> 1))]))]\<rparr>"

definition loop_chunk :: Chunk where
  "loop_chunk =
     \<lparr>Code = [OP_CONST_0, OP_SET_GLOBAL, 0, 0,
              OP_GET_GLOBAL, 0, 0, OP_CONSTANT, 0, 1, OP_LESS, OP_JUMP_IF_LIE, 0, 11,
              OP_GET_GLOBAL, 0, 0, OP_CONST_1, OP_ADD, OP_SET_GLOBAL, 0, 0,
              OP_LOOP, 0, 21, OP_NOTHING, OP_HALT],
      Constants = [NewString 1, NewInt 65536],
      Lines = [0, 0, 0, 0, 0, 0, 0, 0, 0, 0, 0, 0, 0, 0, 0, 0, 0, 0, 0, 0, 0, 0, 0, 0, 0, 0, 0],
      strings = [''c'' \<mapsto> 1], cells = [''c'']\<rparr>"

definition loop_state :: "nat \<Rightarrow> (nat \<Rightarrow> Value) \<Rightarrow> VM" where
  "loop_state i stk =
     \<lparr>stack = stk, stackTop = int i + 1, frameCount = 0,
      globals = [''c'' \<mapsto> NewInt (word_of_nat i)], vm_chunk = loop_chunk, ip = 4,
      stdout = []\<rparr>"

section \<open>The lookup of the symbol table in the specification's words\<close>

text \<open>
  The specification describes \<open>Resolve\<close> as a walk from the innermost scope outward
  that returns the first match. \<open>scope_chain\<close> lists the stores of a table and of its
  enclosing tables, innermost first; \<open>first_match\<close> is the first binding of a name
  along such a list.
\<close>

fun scope_chain :: "SymbolTable \<Rightarrow> (string \<rightharpoonup> Symbol) list" where
  "scope_chain (SymbolTable out sto n) =
     sto # (case out of None \<Rightarrow> [] | Some st' \<Rightarrow> scope_chain st')"

fun first_match :: "(string \<rightharpoonup> Symbol) list \<Rightarrow> string \<Rightarrow> Symbol option" where
  "first_match [] name = None"
| "first_match (sto # rest) name =
     (case sto name of Some symbol \<Rightarrow> Some symbol | None \<Rightarrow> first_match rest name)"

section \<open>Unfolding sets and evaluation rules\<close>

lemmas opcode_defs =
  OP_CONST_0_def OP_CONST_1_def OP_CONST_MINUS1_def OP_NOTHING_def OP_TRU_def OP_LIE_def
  OP_CONSTANT_def OP_CONST_I8_def OP_CONST_I16_def OP_ADD_def OP_SUB_def OP_MUL_def
  OP_DIV_def OP_NEGATE_def OP_EQUAL_def OP_NOT_EQUAL_def OP_GREATER_def OP_LESS_def
  OP_NOT_def OP_GET_LOCAL_0_def OP_GET_LOCAL_1_def OP_GET_LOCAL_2_def OP_GET_LOCAL_3_def
  OP_GET_LOCAL_def OP_SET_LOCAL_0_def OP_SET_LOCAL_1_def OP_SET_LOCAL_def
  OP_GET_GLOBAL_def OP_SET_GLOBAL_def OP_JUMP_def OP_JUMP_IF_LIE_def OP_JUMP_IF_TRU_def
  OP_LOOP_def OP_CALL_0_def OP_CALL_1_def OP_CALL_2_def OP_CALL_def OP_CLOSURE_def
  OP_RETURN_def OP_BRING_def OP_YARN_def OP_BUILTIN_def OP_POP_def OP_DUP_def
  OP_CONCAT_def OP_HALT_def

lemmas value_defs =
  QNAN_BASE_def TAG_INT_def TAG_BOOL_def TAG_NOTHING_def TAG_STRING_def TAG_FUNC_def
  TAG_BUILTIN_def TAG_ERROR_def TAG_SHIFT_def TAG_MASK_def PAYLOAD_MASK_def
  NewInt_def NewBool_def NewNothing_def NewString_def NewBuiltin_def GetTag_def
  IsInt_def IsBool_def IsNothing_def IsString_def IsFunc_def IsBuiltin_def IsError_def
  AsInt_def AsBool_def AsString_def AsBuiltin_def TypeName_def IsFalsey_def IsTruthy_def

lemmas chunk_defs =
  NewChunk_def deref_def WriteByte_def WriteOpcode_def Count_def InternString_def
  Value_String_def Equals_def AddConstant_def GetConstant_def GetLine_def fmt_d_def

lemmas symtab_defs =
  zero_Symbol_def NewSymbolTable_def NewEnclosedSymbolTable_def Define_def DefineBuiltin_def

lemmas compiler_defs =
  New_def emit_def emitByte_def emitBytes_def emitShort_def emitJump_def patchJump_def
  emitLoop_def addConstant_def compileIntegerLiteral_def compileStringLiteral_def
  compileBooleanLiteral_def compileIdentifier_def builtin_callee_def emitCall_def
  emitMake_def compileStatementWithContext_def Compile_def

lemmas vm_defs =
  STACK_MAX_def NewVM_def Reset_def stack_get_def stack_set_def push_inline_def
  readByte_def readShort_def valueToString_def error_text_def runtimeError_def
  int64_div_def take_two_def
  exec_CONST_I8_def exec_CONST_I16_def exec_CONSTANT_def exec_ADD_def exec_SUB_def
  exec_MUL_def exec_DIV_def exec_NEGATE_def exec_EQUAL_def exec_NOT_EQUAL_def
  exec_GREATER_def exec_LESS_def exec_NOT_def exec_DUP_def global_name_def
  exec_GET_GLOBAL_def exec_SET_GLOBAL_def exec_JUMP_def exec_JUMP_IF_LIE_def
  exec_JUMP_IF_TRU_def exec_LOOP_def exec_YARN_def exec_HALT_def step_def Run_def
  returned_def compileAndRun_def

lemma execute_numeral:
  "execute (numeral k) vm =
     (case step vm of
        Continue vm1 \<Rightarrow> execute (pred_numeral k) vm1
      | Returned v err vm1 \<Rightarrow> Returned v err vm1
      | Panicked msg \<Rightarrow> Panicked msg)"
  by (simp add: numeral_eq_Suc)

section \<open>Properties of the value encoding\<close>

lemma PAYLOAD_MASK_mask: "PAYLOAD_MASK = mask 48"
  by (simp add: PAYLOAD_MASK_def mask_eq_exp_minus_1)

lemma QNAN_BASE_payload: "QNAN_BASE AND mask 48 = 0"
  by (simp add: QNAN_BASE_def mask_eq_exp_minus_1)

lemma payload_NewInt: "NewInt i AND PAYLOAD_MASK = take_bit 48 i"
  unfolding NewInt_def Let_def PAYLOAD_MASK_mask TAG_INT_def
  by (simp add: bit.conj_disj_distrib2 QNAN_BASE_payload take_bit_eq_mask)

lemma sign_test_gen:
  fixes i :: "'a::len word"
  shows "take_bit (Suc n) i AND push_bit n 1 = (if bit i n then push_bit n 1 else 0)"
  by (rule bit_word_eqI) (auto simp add: bit_simps)

lemma sign_test: "(take_bit 48 i AND (0x800000000000 :: 64 word) \<noteq> 0) = bit i 47"
  using sign_test_gen [of 47 i] by (simp split: if_splits)

lemma sext_set_gen:
  fixes i :: "'a::len word"
  assumes "bit i n"
  shows "take_bit (Suc n) i OR NOT (mask (Suc n)) = signed_take_bit n i"
  using assms
  by (intro bit_word_eqI) (auto simp add: bit_simps min_def not_less less_Suc_eq_le)

lemma sext_clear_gen:
  fixes i :: "'a::len word"
  assumes "\<not> bit i n"
  shows "take_bit (Suc n) i = signed_take_bit n i"
  using assms
  by (intro bit_word_eqI) (auto simp add: bit_simps min_def not_less less_Suc_eq_le)

lemma AsInt_NewInt: "AsInt (NewInt i) = signed_take_bit 47 i"
proof (cases "bit i 47")
  case True
  have "AsInt (NewInt i) = take_bit 48 i OR NOT (mask 48)"
    unfolding AsInt_def Let_def payload_NewInt using True
    by (simp add: sign_test PAYLOAD_MASK_mask)
  then show ?thesis using sext_set_gen [of i 47] True by simp
next
  case False
  have "AsInt (NewInt i) = take_bit 48 i"
    unfolding AsInt_def Let_def payload_NewInt using False
    by (simp add: sign_test)
  then show ?thesis using sext_clear_gen [of i 47] False by simp
qed

lemma sint_signed_take_bit_47:
  "sint (signed_take_bit 47 (i :: 64 word)) = signed_take_bit 47 (sint i)"
  by (rule bit_eqI) (auto simp add: bit_simps min_def)

lemma sint_AsInt_NewInt:
  "sint (AsInt (NewInt i)) = (sint i + 2 ^ 47) mod 2 ^ 48 - 2 ^ 47"
  by (simp add: AsInt_NewInt sint_signed_take_bit_47
      signed_take_bit_eq_take_bit_shift take_bit_eq_mod)

text \<open>
  C9. For every integer \<open>i\<close> with \<open>- 2 ^ 47 \<le> i \<le> 2 ^ 47 - 1\<close>, building the
  integer value with \<open>NewInt\<close> and reading it back with \<open>AsInt\<close> (which sign-extends
  bit 47) gives \<open>i\<close> again.
\<close>

theorem C9_int_roundtrip:
  assumes "MIN_INT_48 \<le> sint i" and "sint i \<le> MAX_INT_48"
  shows "AsInt (NewInt i) = i"
proof -
  have "sint (AsInt (NewInt i)) = sint i"
    using assms
    by (simp add: AsInt_NewInt sint_signed_take_bit_47 signed_take_bit_int_eq_self
        MIN_INT_48_def MAX_INT_48_def)
  then show ?thesis by (simp add: signed_word_eqI)
qed

theorem C9_int_roundtrip_witness:
  "MIN_INT_48 \<le> sint (- 140737488355328 :: 64 word)
   \<and> sint (- 140737488355328 :: 64 word) \<le> MAX_INT_48
   \<and> AsInt (NewInt (- 140737488355328)) = (- 140737488355328 :: 64 word)"
proof -
  have lo: "MIN_INT_48 \<le> sint (- 140737488355328 :: 64 word)"
    by (simp add: MIN_INT_48_def)
  have hi: "sint (- 140737488355328 :: 64 word) \<le> MAX_INT_48"
    by (simp add: MAX_INT_48_def)
  show ?thesis using lo hi C9_int_roundtrip [OF lo hi] by simp
qed

section \<open>Unknown opcodes\<close>

text \<open>
  C1. The claim: no syntax tree that the compiler accepts makes the VM return an
  "Unknown opcode" runtime error. The code at two accepted programs: for \<open>bring 5\<close>
  the compiler emits \<open>OP_BRING\<close>, for \<open>len("abc")\<close> it emits \<open>OP_BUILTIN\<close>, and the
  dispatch switch has a case for neither, so both runs end in its default branch.
\<close>

theorem C1_unknown_opcode:
  "map_sum id Code (Compile New \<lparr>Statements = [BringStatement t1 (Some (IntegerLiteral t2 5))]\<rparr>)
     = Inr [OP_CONST_I8, 5, OP_BRING, OP_HALT]
   \<and> map_sum id returned
        (compileAndRun 2 \<lparr>Statements = [BringStatement t1 (Some (IntegerLiteral t2 5))]\<rparr>)
     = Inr (Some (NewNothing, Some (error_text ''Unknown opcode: 61'' 0)))
   \<and> map_sum id Code
        (Compile New \<lparr>Statements = [ExpressionStatement t3
            (CallExpression t4 (Identifier t5 ''len'') [StringLiteral t6 ''abc''])]\<rparr>)
     = Inr [OP_CONSTANT, 0, 0, OP_BUILTIN, 1, 1, OP_HALT]
   \<and> map_sum id returned
        (compileAndRun 2 \<lparr>Statements = [ExpressionStatement t3
            (CallExpression t4 (Identifier t5 ''len'') [StringLiteral t6 ''abc''])]\<rparr>)
     = Inr (Some (NewNothing, Some (error_text ''Unknown opcode: 66'' 0)))"
  by (simp add: compiler_defs chunk_defs symtab_defs opcode_defs vm_defs value_defs
      execute_numeral dec_nat.simps Let_def)

section \<open>Constant pool\<close>

text \<open>
  C2. The claim: the index \<open>addConstant\<close> returns for a value refers to a pool entry
  equal to that value, and unequal values never share an index. The code at the program
  \<open>100000\<close> followed by \<open>"100000"\<close>: the compiler's cache is keyed by the string form
  of the value, which is the same for the integer and for the string, so the string
  literal is given index 0, where the integer sits; the two are not equal under
  \<open>Equals\<close>, and the program's result is the integer.
\<close>

theorem C2_constant_key_collision:
  "map_sum id Code
      (Compile New \<lparr>Statements = [ExpressionStatement t1 (IntegerLiteral t2 100000),
                                  ExpressionStatement t3 (StringLiteral t4 ''100000'')]\<rparr>)
     = Inr [OP_CONSTANT, 0, 0, OP_POP, OP_CONSTANT, 0, 0, OP_HALT]
   \<and> map_sum id Constants
      (Compile New \<lparr>Statements = [ExpressionStatement t1 (IntegerLiteral t2 100000),
                                  ExpressionStatement t3 (StringLiteral t4 ''100000'')]\<rparr>)
     = Inr [NewInt 100000]
   \<and> (case compileIntegerLiteral 100000 New of
         Inl e \<Rightarrow> False
       | Inr c1 \<Rightarrow>
           (case InternString (chunk c1) ''100000'' of
              (strPtr, ch) \<Rightarrow>
                (case addConstant (c1\<lparr>chunk := ch\<rparr>) (NewString strPtr) of
                   Inl e \<Rightarrow> False
                 | Inr (idx, c2) \<Rightarrow>
                     idx = 0
                     \<and> Constants (chunk c2) ! nat idx = NewInt 100000
                     \<and> Equals (chunk c2) (Constants (chunk c2) ! nat idx) (NewString strPtr)
                         = Some False)))
   \<and> map_sum id returned
        (compileAndRun 4 \<lparr>Statements = [ExpressionStatement t1 (IntegerLiteral t2 100000),
                                  ExpressionStatement t3 (StringLiteral t4 ''100000'')]\<rparr>)
     = Inr (Some (NewInt 100000, None))"
  by (simp add: compiler_defs chunk_defs symtab_defs opcode_defs vm_defs value_defs
      execute_numeral dec_nat.simps Let_def)

section \<open>Division by zero and the reported line\<close>

text \<open>
  C3, as stated: running \<open>10 / 0\<close> reports the source line of the \<open>/\<close> operator. With
  every token of the program on line 1, as the lexer numbers a one-line source, the
  error returned is not the division-by-zero text for line 1.
\<close>

theorem C3_line_counterexample:
  "map_sum id returned
     (compileAndRun 4 \<lparr>Statements =
        [ExpressionStatement \<lparr>Type = ''INT'', Literal = ''10'', Line = 1\<rparr>
           (InfixExpression \<lparr>Type = ''/'', Literal = ''/'', Line = 1\<rparr>
              (IntegerLiteral \<lparr>Type = ''INT'', Literal = ''10'', Line = 1\<rparr> 10)
              ''/''
              (IntegerLiteral \<lparr>Type = ''INT'', Literal = ''0'', Line = 1\<rparr> 0))]\<rparr>)
   \<noteq> Inr (Some (NewNothing,
         Some (error_text ''I no fit divide by zero o!''
                 (Line \<lparr>Type = ''/'', Literal = ''/'', Line = 1\<rparr>))))"
  by (simp add: compiler_defs chunk_defs symtab_defs opcode_defs vm_defs value_defs
      execute_numeral dec_nat.simps Let_def)

text \<open>
  C3, amended. Compiling and running \<open>10 / 0\<close>, whatever lines its tokens carry,
  returns the nothing value together with a runtime error whose message is
  "I no fit divide by zero o!" and whose line is the entry of the chunk's line table at
  the failing instruction; the compiler writes 0 into every entry of that table, so the
  reported line is 0.
\<close>

theorem C3_division_by_zero_line:
  "map_sum id Code
     (Compile New \<lparr>Statements =
        [ExpressionStatement t1 (InfixExpression t2 (IntegerLiteral t3 10) ''/''
                                   (IntegerLiteral t4 0))]\<rparr>)
     = Inr [OP_CONST_I8, 10, OP_CONST_0, OP_DIV, OP_HALT]
   \<and> map_sum id Lines
     (Compile New \<lparr>Statements =
        [ExpressionStatement t1 (InfixExpression t2 (IntegerLiteral t3 10) ''/''
                                   (IntegerLiteral t4 0))]\<rparr>)
     = Inr [0, 0, 0, 0, 0]
   \<and> map_sum id returned
     (compileAndRun 4 \<lparr>Statements =
        [ExpressionStatement t1 (InfixExpression t2 (IntegerLiteral t3 10) ''/''
                                   (IntegerLiteral t4 0))]\<rparr>)
     = Inr (Some (NewNothing, Some (error_text ''I no fit divide by zero o!'' 0)))
   \<and> error_text ''I no fit divide by zero o!'' 0
     = ''Wahala dey o! I no fit divide by zero o! [line 0]'' @ [CHR 0x0A]"
  by (simp add: compiler_defs chunk_defs symtab_defs opcode_defs vm_defs value_defs
      execute_numeral dec_nat.simps Let_def)

section \<open>Resolving names\<close>

text \<open>
  C4, as stated: when the first match is a local defined in an enclosing scope, the
  symbol is marked unavailable. With a global table, a first local scope that defines
  \<open>c\<close> and a second local scope inside it, resolving \<open>c\<close> from the second scope
  finds it, and hands back the very symbol that \<open>Define\<close> made in the first scope:
  local, slot 0, with no mark on it.
\<close>

theorem C4_outer_local_counterexample:
  "Resolve (snd (Define (NewEnclosedSymbolTable
              (snd (Define (NewEnclosedSymbolTable (snd (Define NewSymbolTable ''a''))) ''c'')))
              ''e'')) ''c''
     = (\<lparr>Name = ''c'', Scope = SCOPE_LOCAL, Index = 0\<rparr>, True)
   \<and> fst (Define (NewEnclosedSymbolTable (snd (Define NewSymbolTable ''a''))) ''c'')
     = \<lparr>Name = ''c'', Scope = SCOPE_LOCAL, Index = 0\<rparr>"
  by (simp add: symtab_defs Let_def)

text \<open>
  C4, amended. \<open>Resolve\<close> searches from the innermost scope outward and returns the
  first binding of the name it meets, unchanged, whatever its scope kind: global,
  builtin, or a local of an enclosing scope, which keeps its local scope and its slot
  and is reported as found. When no scope binds the name it returns the zero symbol
  and \<open>false\<close>.
\<close>

theorem C4_resolve_first_match:
  "Resolve st name =
     (case first_match (scope_chain st) name of
        Some symbol \<Rightarrow> (symbol, True)
      | None \<Rightarrow> (zero_Symbol, False))"
proof (induction st)
  case (SymbolTable out sto n)
  show ?case
  proof (cases "sto name")
    case (Some symbol)
    then show ?thesis by simp
  next
    case None
    note sto_none = this
    show ?thesis
    proof (cases out)
      case None
      then show ?thesis using sto_none by simp
    next
      case (Some st')
      have "Resolve st' name =
           (case first_match (scope_chain st') name of
              Some symbol \<Rightarrow> (symbol, True) | None \<Rightarrow> (zero_Symbol, False))"
        using SymbolTable.IH Some by simp
      then show ?thesis using sto_none Some by (simp split: option.splits)
    qed
  qed
qed

section \<open>Integer literals\<close>

lemma sint_signed_take_bit_gen:
  "n < 63 \<Longrightarrow> sint (signed_take_bit n (i :: 64 word)) = signed_take_bit n (sint i)"
  by (rule bit_eqI) (auto simp add: bit_simps min_def)

lemma signed_take_bit_word_id:
  assumes "n < 63" "- (2 ^ n) \<le> sint (val :: 64 word)" "sint val < 2 ^ n"
  shows "signed_take_bit n val = val"
proof -
  have "sint (signed_take_bit n val) = sint val"
    using assms by (simp add: sint_signed_take_bit_gen signed_take_bit_int_eq_self)
  then show ?thesis by (simp add: signed_word_eqI)
qed

lemma scast_ucast_8:
  "scast (ucast (val :: 64 word) :: 8 word) = (signed_take_bit 7 val :: 64 word)"
  by (rule bit_word_eqI) (auto simp add: bit_simps min_def)

lemma scast_ucast_16:
  "scast (ucast (val :: 64 word) :: 16 word) = (signed_take_bit 15 val :: 64 word)"
  by (rule bit_word_eqI) (auto simp add: bit_simps min_def)

lemma join_bytes_16:
  "push_bit 8 (ucast (ucast (drop_bit 8 w) :: 8 word)) OR ucast (ucast (w AND 0xFF) :: 8 word)
     = (w :: 16 word)"
proof -
  have m: "(0xFF :: 16 word) = mask 8" by (simp add: mask_eq_exp_minus_1)
  show ?thesis unfolding m
    by (rule bit_word_eqI) (auto simp add: bit_simps)
qed

lemma decode_i8:
  assumes "- 128 \<le> sint (val :: 64 word)" "sint val \<le> 127"
  shows "scast (ucast val :: 8 word) = val"
  using assms signed_take_bit_word_id [of 7 val] by (simp add: scast_ucast_8)

lemma decode_i16:
  assumes "- 32768 \<le> sint (val :: 64 word)" "sint val \<le> 32767"
  shows "scast (push_bit 8 (ucast (ucast (drop_bit 8 (ucast val :: 16 word)) :: 8 word)) OR
                ucast (ucast ((ucast val :: 16 word) AND 0xFF) :: 8 word) :: 16 word) = val"
  using assms signed_take_bit_word_id [of 15 val] by (simp add: join_bytes_16 scast_ucast_16)

lemma NewInt_take_bit: "NewInt i = QNAN_BASE OR take_bit 48 i"
  by (simp add: NewInt_def Let_def TAG_INT_def PAYLOAD_MASK_mask take_bit_eq_mask)

lemma GetTag_NewInt: "GetTag (NewInt i) = 0"
proof -
  have "drop_bit 48 (NewInt i) = 0x7FF8"
    unfolding NewInt_take_bit
    by (simp add: drop_bit_take_bit QNAN_BASE_def)
  then show ?thesis
    by (simp add: GetTag_def TAG_SHIFT_def TAG_MASK_def)
qed

lemma IsInt_NewInt: "IsInt (NewInt i)"
  by (simp add: IsInt_def GetTag_NewInt TAG_INT_def)

lemma Value_String_NewInt:
  "Value_String c (NewInt i) = Some (fmt_d (sint (AsInt (NewInt i))))"
  by (simp add: Value_String_def GetTag_NewInt TAG_INT_def)

lemma Equals_int_total: "Equals c existing (NewInt i) \<noteq> None"
  by (auto simp add: Equals_def IsString_def GetTag_NewInt TAG_STRING_def)

lemma scan_constants_int: "scan_constants c xs k (NewInt i) \<noteq> None"
  by (induction xs arbitrary: k)
     (auto simp add: Equals_int_total split: option.splits bool.splits)

lemma AddConstant_int:
  "\<exists>idx ch. AddConstant c (NewInt i) = Some (idx, ch) \<and> Code ch = Code c"
  using scan_constants_int [of c "Constants c" 0 i]
  by (auto simp add: AddConstant_def Let_def split: option.splits)

lemma addConstant_int:
  "\<exists>idx c1. addConstant c (NewInt i) = Inr (idx, c1) \<and> Code (chunk c1) = Code (chunk c)"
  using AddConstant_int [of "chunk c" i]
  by (auto simp add: addConstant_def Value_String_NewInt split: option.splits)

lemma Code_emit: "Code (chunk (snd (emit c op))) = Code (chunk c) @ [op]"
  by (simp add: emit_def Let_def WriteOpcode_def WriteByte_def)

lemma Code_emitByte: "Code (chunk (snd (emitByte c op b))) = Code (chunk c) @ [op, b]"
  by (simp add: emitByte_def emit_def Let_def WriteOpcode_def WriteByte_def)

lemma Code_emitShort:
  "Code (chunk (snd (emitShort c op w))) =
     Code (chunk c) @ [op, ucast (drop_bit 8 w), ucast (w AND 0xFF)]"
  by (simp add: emitShort_def emit_def Let_def WriteOpcode_def WriteByte_def)

lemma Equals_int_iff: "Equals c existing (NewInt i) = Some (existing = NewInt i)"
  by (auto simp add: Equals_def IsString_def GetTag_NewInt TAG_STRING_def)

lemma scan_constants_int_hit:
  "scan_constants c xs k (NewInt i) = Some (Some j) \<Longrightarrow>
     k \<le> j \<and> j < k + int (length xs) \<and> xs ! nat (j - k) = NewInt i"
proof (induction xs arbitrary: k)
  case Nil
  then show ?case by simp
next
  case (Cons x xs)
  show ?case
  proof (cases "x = NewInt i")
    case True
    then show ?thesis using Cons.prems by (simp add: Equals_int_iff)
  next
    case False
    then have "scan_constants c xs (k + 1) (NewInt i) = Some (Some j)"
      using Cons.prems by (simp add: Equals_int_iff)
    then have h: "k + 1 \<le> j \<and> j < k + 1 + int (length xs) \<and> xs ! nat (j - (k + 1)) = NewInt i"
      by (rule Cons.IH)
    then have "nat (j - k) = Suc (nat (j - (k + 1)))" by linarith
    then show ?thesis using h by simp
  qed
qed

lemma AddConstant_int_entry:
  "AddConstant c (NewInt i) = Some (idx, ch) \<Longrightarrow>
     0 \<le> idx \<and> idx < int (length (Constants ch)) \<and> Constants ch ! nat idx = NewInt i"
  by (auto simp add: AddConstant_def Let_def nth_append
      split: option.splits dest!: scan_constants_int_hit)

lemma integer_literal_pool_entry:
  assumes miss: "constants c (fmt_d (sint (AsInt (NewInt val)))) = None"
  shows "\<exists>idx c1. addConstant c (NewInt val) = Inr (idx, c1) \<and> 0 \<le> idx
           \<and> idx < int (length (Constants (chunk c1)))
           \<and> Constants (chunk c1) ! nat idx = NewInt val"
proof -
  obtain idx ch where a: "AddConstant (chunk c) (NewInt val) = Some (idx, ch)"
    using AddConstant_int by blast
  have "0 \<le> idx \<and> idx < int (length (Constants ch)) \<and> Constants ch ! nat idx = NewInt val"
    using a by (rule AddConstant_int_entry)
  then show ?thesis
    using a miss by (simp add: addConstant_def Value_String_NewInt)
qed

lemma Constants_emitShort: "Constants (chunk (snd (emitShort c op w))) = Constants (chunk c)"
  by (simp add: emitShort_def emit_def Let_def WriteOpcode_def WriteByte_def)

text \<open>
  The choice of the instruction. For every integer literal, in every compiler state,
  \<open>compileIntegerLiteral\<close> succeeds and appends to the code exactly one instruction:
  \<open>OP_CONST_0\<close>, \<open>OP_CONST_1\<close> or \<open>OP_CONST_MINUS1\<close> for 0, 1 and -1; otherwise
  \<open>OP_CONST_I8\<close> with one operand byte when the value lies in [-128, 127]; otherwise
  \<open>OP_CONST_I16\<close> with two operand bytes when it lies in [-32768, 32767]; otherwise
  \<open>OP_CONSTANT\<close> with the two bytes of the index that \<open>addConstant\<close> returns. The
  inline operands hold the value: read back as the VM reads them (sign-extended from 8
  or 16 bits) they give the literal again. When the compiler's cache has no entry under
  the literal's string form, the index names a pool entry that is the literal
  (\<open>integer_literal_pool_entry\<close>).
\<close>

lemma integer_literal_opcode:
  "\<exists>c' ops. compileIntegerLiteral val c = Inr c' \<and> Code (chunk c') = Code (chunk c) @ ops \<and>
     (if val = 0 then ops = [OP_CONST_0]
      else if val = 1 then ops = [OP_CONST_1]
      else if val = - 1 then ops = [OP_CONST_MINUS1]
      else if - 128 \<le> sint val \<and> sint val \<le> 127 then
        (\<exists>b. ops = [OP_CONST_I8, b] \<and> scast b = val)
      else if - 32768 \<le> sint val \<and> sint val \<le> 32767 then
        (\<exists>hi lo. ops = [OP_CONST_I16, hi, lo]
           \<and> scast (push_bit 8 (ucast hi) OR ucast lo :: 16 word) = val)
      else (\<exists>idx c1. addConstant c (NewInt val) = Inr (idx, c1)
              \<and> ops = [OP_CONSTANT, ucast (drop_bit 8 (word_of_int idx :: 16 word)),
                        ucast ((word_of_int idx :: 16 word) AND 0xFF)]
              \<and> Constants (chunk c') = Constants (chunk c1)))"
proof -
  consider (zero) "val = 0" | (one) "val = 1" | (minus1) "val = - 1"
    | (i8) "val \<noteq> 0" "val \<noteq> 1" "val \<noteq> - 1" "- 128 \<le> sint val \<and> sint val \<le> 127"
    | (i16) "val \<noteq> 0" "val \<noteq> 1" "val \<noteq> - 1"
        "\<not> (- 128 \<le> sint val \<and> sint val \<le> 127)"
        "- 32768 \<le> sint val \<and> sint val \<le> 32767"
    | (pool) "val \<noteq> 0" "val \<noteq> 1" "val \<noteq> - 1"
        "\<not> (- 128 \<le> sint val \<and> sint val \<le> 127)"
        "\<not> (- 32768 \<le> sint val \<and> sint val \<le> 32767)"
    by blast
  then show ?thesis
  proof cases
    case zero
    then show ?thesis by (simp add: compileIntegerLiteral_def Code_emit)
  next
    case one
    then show ?thesis by (simp add: compileIntegerLiteral_def Code_emit)
  next
    case minus1
    then show ?thesis by (simp add: compileIntegerLiteral_def Code_emit)
  next
    case i8
    then show ?thesis
      using decode_i8 [of val] by (simp add: compileIntegerLiteral_def Code_emitByte)
  next
    case i16
    then show ?thesis
      using decode_i16 [of val] by (auto simp add: compileIntegerLiteral_def Code_emitShort)
  next
    case pool
    obtain idx c1 where a: "addConstant c (NewInt val) = Inr (idx, c1)"
      and b: "Code (chunk c1) = Code (chunk c)"
      using addConstant_int by blast
    show ?thesis using pool a b
      by (auto simp add: compileIntegerLiteral_def Code_emitShort Constants_emitShort)
  qed
qed

text \<open>
  C8. The claim: an integer literal outside [-32768, 32767] is lowered to a constant
  pool entry referenced by \<open>OP_CONSTANT\<close>. The code at the program \<open>"100000"\<close>
  followed by \<open>100000\<close>: the string literal is pooled at index 0 and cached under its
  string form, which is also the string form of the integer; the integer literal finds
  that cache entry, no pool entry is made for it, and it is lowered to \<open>OP_CONSTANT\<close>
  with index 0, which names the string. The program's result is the string.
\<close>

theorem C8_integer_literal_names_string:
  "map_sum id Code
      (Compile New \<lparr>Statements = [ExpressionStatement t1 (StringLiteral t2 ''100000''),
                                  ExpressionStatement t3 (IntegerLiteral t4 100000)]\<rparr>)
     = Inr [OP_CONSTANT, 0, 0, OP_POP, OP_CONSTANT, 0, 0, OP_HALT]
   \<and> map_sum id Constants
      (Compile New \<lparr>Statements = [ExpressionStatement t1 (StringLiteral t2 ''100000''),
                                  ExpressionStatement t3 (IntegerLiteral t4 100000)]\<rparr>)
     = Inr [NewString 1]
   \<and> (case compileStringLiteral ''100000'' New of
         Inl e \<Rightarrow> False
       | Inr c1 \<Rightarrow>
           (case compileIntegerLiteral 100000 c1 of
              Inl e \<Rightarrow> False
            | Inr c2 \<Rightarrow>
                Code (chunk c2) = Code (chunk c1) @ [OP_CONSTANT, 0, 0]
                \<and> Constants (chunk c2) = [NewString 1]
                \<and> deref (chunk c2) (AsString (NewString 1)) = Some ''100000''
                \<and> Equals (chunk c2) (Constants (chunk c2) ! 0) (NewInt 100000) = Some False))
   \<and> map_sum id returned
        (compileAndRun 4 \<lparr>Statements = [ExpressionStatement t1 (StringLiteral t2 ''100000''),
                                  ExpressionStatement t3 (IntegerLiteral t4 100000)]\<rparr>)
     = Inr (Some (NewString 1, None))
   \<and> TypeName (NewString 1) = ''string''"
  by (simp add: compiler_defs chunk_defs symtab_defs opcode_defs vm_defs value_defs
      execute_numeral dec_nat.simps Let_def)

section \<open>Integer overflow\<close>

lemma wrap48_signed_take_bit: "wrap48 k = signed_take_bit 47 k"
  by (simp add: wrap48_def signed_take_bit_eq_take_bit_shift take_bit_eq_mod)

lemma sint_AsInt_NewInt_wrap: "sint (AsInt (NewInt i)) = wrap48 (sint i)"
  by (simp add: sint_AsInt_NewInt wrap48_def)

lemma wrap48_sint_arith:
  "wrap48 (sint (x + y :: 64 word)) = wrap48 (sint x + sint y)"
  "wrap48 (sint (x - y :: 64 word)) = wrap48 (sint x - sint y)"
  "wrap48 (sint (x * y :: 64 word)) = wrap48 (sint x * sint y)"
  "wrap48 (sint (- x :: 64 word)) = wrap48 (- sint x)"
  by (simp_all add: wrap48_signed_take_bit sint_word_ariths signed_take_bit_signed_take_bit)

lemma wrap48_range: "- (2 ^ 47) \<le> wrap48 k \<and> wrap48 k < 2 ^ 47"
  by (simp add: wrap48_def) 

lemma wrap48_cong: "(wrap48 k - k) mod 2 ^ 48 = 0"
proof -
  have "wrap48 k - k = (k + 2 ^ 47) mod 2 ^ 48 - (k + 2 ^ 47)"
    by (simp add: wrap48_def)
  also have "\<dots> mod 2 ^ 48 = ((k + 2 ^ 47) - (k + 2 ^ 47)) mod 2 ^ 48"
    by (rule mod_diff_left_eq)
  finally show ?thesis by simp
qed

lemma wrap48_unique:
  assumes "- (2 ^ 47) \<le> r" "r < 2 ^ 47" "(r - k) mod 2 ^ 48 = 0"
  shows "r = wrap48 k"
proof -
  have "(2::int) ^ 48 dvd (r + 2 ^ 47) - (k + 2 ^ 47)"
    using assms(3) by (simp add: mod_eq_0_iff_dvd)
  then have "(r + 2 ^ 47) mod 2 ^ 48 = (k + 2 ^ 47) mod 2 ^ 48"
    by (simp only: mod_eq_dvd_iff)
  moreover have "(r + 2 ^ 47) mod 2 ^ 48 = r + 2 ^ 47"
    using assms(1,2) by (intro mod_pos_pos_trivial) simp_all
  ultimately show ?thesis by (simp add: wrap48_def)
qed

lemma readByte_Some:
  "readByte vm0 = Some (b, vm) \<Longrightarrow>
     vm = vm0\<lparr>ip := ip vm0 + 1\<rparr> \<and> 0 \<le> ip vm0 \<and> ip vm0 < int (length (Code (vm_chunk vm0)))
     \<and> b = Code (vm_chunk vm0) ! nat (ip vm0)"
  by (auto simp add: readByte_def Let_def split: if_splits)

lemma take_two_Some:
  "take_two vm = Some (a, b, vm1) \<Longrightarrow>
     vm1 = vm\<lparr>stackTop := stackTop vm - 2\<rparr> \<and> 2 \<le> stackTop vm \<and> stackTop vm \<le> STACK_MAX
     \<and> b = stack vm (nat (stackTop vm - 1)) \<and> a = stack vm (nat (stackTop vm - 2))"
  by (auto simp add: take_two_def stack_get_def split: option.splits if_splits)

lemma push_inline_ok:
  "0 \<le> stackTop vm \<Longrightarrow> stackTop vm < STACK_MAX \<Longrightarrow>
     push_inline vm v = Continue (vm\<lparr>stack := (stack vm)(nat (stackTop vm) := v),
                                   stackTop := stackTop vm + 1\<rparr>)"
  by (simp add: push_inline_def stack_set_def)

lemma step_ADD: "readByte vm0 = Some (OP_ADD, vm) \<Longrightarrow> step vm0 = exec_ADD vm"
  and step_SUB: "readByte vm0 = Some (OP_SUB, vm) \<Longrightarrow> step vm0 = exec_SUB vm"
  and step_MUL: "readByte vm0 = Some (OP_MUL, vm) \<Longrightarrow> step vm0 = exec_MUL vm"
  and step_NEGATE: "readByte vm0 = Some (OP_NEGATE, vm) \<Longrightarrow> step vm0 = exec_NEGATE vm"
  by (simp_all add: step_def opcode_defs)

lemma int_binop_push:
  assumes "take_two vm = Some (a, b, vm1)"
  shows "\<exists>vm2. push_inline vm1 (NewInt w) = Continue vm2
           \<and> stackTop vm2 = stackTop vm - 1
           \<and> stack_get vm2 (stackTop vm2 - 1) = Some (NewInt w)"
proof -
  from take_two_Some [OF assms]
  have vm1: "vm1 = vm\<lparr>stackTop := stackTop vm - 2\<rparr>"
    and lo: "2 \<le> stackTop vm" and hi: "stackTop vm \<le> STACK_MAX"
    by simp_all
  have "push_inline vm1 (NewInt w) =
          Continue (vm1\<lparr>stack := (stack vm1)(nat (stackTop vm1) := NewInt w),
                        stackTop := stackTop vm1 + 1\<rparr>)"
    using lo hi by (intro push_inline_ok) (simp_all add: vm1)
  then show ?thesis using lo hi
    by (simp add: vm1 stack_get_def)
qed

text \<open>
  C10. For every 64-bit integer \<open>i\<close>, \<open>AsInt (NewInt i)\<close> is \<open>wrap48 i\<close>: it lies
  in the 48-bit range, is congruent to \<open>i\<close> modulo \<open>2 ^ 48\<close>, and is the only such
  value. The VM's \<open>OP_ADD\<close>, \<open>OP_SUB\<close> and \<open>OP_MUL\<close> on two integer operands, and
  \<open>OP_NEGATE\<close> on one, replace the operands by an integer value whose payload is the
  exact result wrapped the same way: overflow wraps, it does not saturate.
\<close>

theorem C10_wrapping:
  "sint (AsInt (NewInt i)) = wrap48 (sint i)
   \<and> - (2 ^ 47) \<le> wrap48 (sint i) \<and> wrap48 (sint i) < 2 ^ 47
   \<and> (wrap48 (sint i) - sint i) mod 2 ^ 48 = 0
   \<and> (\<forall>r. - (2 ^ 47) \<le> r \<and> r < 2 ^ 47 \<and> (r - sint i) mod 2 ^ 48 = 0 \<longrightarrow> r = wrap48 (sint i))
   \<and> (readByte vm0 = Some (op, vm) \<and> (op = OP_ADD \<or> op = OP_SUB \<or> op = OP_MUL)
        \<and> take_two vm = Some (a, b, vm1) \<and> IsInt a \<and> IsInt b
      \<longrightarrow> (\<exists>vm2 r. step vm0 = Continue vm2
                  \<and> stackTop vm2 = stackTop vm0 - 1
                  \<and> stack_get vm2 (stackTop vm2 - 1) = Some r
                  \<and> IsInt r
                  \<and> sint (AsInt r) = wrap48 (arith_op op (sint (AsInt a)) (sint (AsInt b)))))
   \<and> (readByte vm0 = Some (OP_NEGATE, vm) \<and> stack_get vm (stackTop vm - 1) = Some a \<and> IsInt a
      \<longrightarrow> (\<exists>vm2 r. step vm0 = Continue vm2
                  \<and> stackTop vm2 = stackTop vm0
                  \<and> stack_get vm2 (stackTop vm2 - 1) = Some r
                  \<and> IsInt r
                  \<and> sint (AsInt r) = wrap48 (- sint (AsInt a))))"
proof (intro conjI impI allI)
  show "sint (AsInt (NewInt i)) = wrap48 (sint i)" by (rule sint_AsInt_NewInt_wrap)
  show "- (2 ^ 47) \<le> wrap48 (sint i)" using wrap48_range by blast
  show "wrap48 (sint i) < 2 ^ 47" using wrap48_range by blast
  show "(wrap48 (sint i) - sint i) mod 2 ^ 48 = 0" by (rule wrap48_cong)
next
  fix r
  assume "- (2 ^ 47) \<le> r \<and> r < 2 ^ 47 \<and> (r - sint i) mod 2 ^ 48 = 0"
  then show "r = wrap48 (sint i)" by (intro wrap48_unique) simp_all
next
  assume h: "readByte vm0 = Some (op, vm) \<and> (op = OP_ADD \<or> op = OP_SUB \<or> op = OP_MUL)
        \<and> take_two vm = Some (a, b, vm1) \<and> IsInt a \<and> IsInt b"
  then have rb: "readByte vm0 = Some (op, vm)" and tt: "take_two vm = Some (a, b, vm1)"
    and ia: "IsInt a" and ib: "IsInt b" by simp_all
  have st: "stackTop vm = stackTop vm0" using readByte_Some [OF rb] by simp
  from h consider (add) "op = OP_ADD" | (sub) "op = OP_SUB" | (mul) "op = OP_MUL" by blast
  then show "\<exists>vm2 r. step vm0 = Continue vm2
                  \<and> stackTop vm2 = stackTop vm0 - 1
                  \<and> stack_get vm2 (stackTop vm2 - 1) = Some r
                  \<and> IsInt r
                  \<and> sint (AsInt r) = wrap48 (arith_op op (sint (AsInt a)) (sint (AsInt b)))"
  proof cases
    case add
    obtain vm2 where p: "push_inline vm1 (NewInt (AsInt a + AsInt b)) = Continue vm2"
      "stackTop vm2 = stackTop vm - 1"
      "stack_get vm2 (stackTop vm2 - 1) = Some (NewInt (AsInt a + AsInt b))"
      using int_binop_push [OF tt] by blast
    have "step vm0 = Continue vm2"
      using rb add tt ia ib p(1) by (simp add: step_ADD exec_ADD_def Let_def)
    then show ?thesis using p st add
      by (auto simp add: IsInt_NewInt sint_AsInt_NewInt_wrap wrap48_sint_arith arith_op_def)
  next
    case sub
    obtain vm2 where p: "push_inline vm1 (NewInt (AsInt a - AsInt b)) = Continue vm2"
      "stackTop vm2 = stackTop vm - 1"
      "stack_get vm2 (stackTop vm2 - 1) = Some (NewInt (AsInt a - AsInt b))"
      using int_binop_push [OF tt] by blast
    have "step vm0 = Continue vm2"
      using rb sub tt ia ib p(1) by (simp add: step_SUB exec_SUB_def Let_def)
    then show ?thesis using p st sub
      by (auto simp add: IsInt_NewInt sint_AsInt_NewInt_wrap wrap48_sint_arith arith_op_def
          opcode_defs)
  next
    case mul
    obtain vm2 where p: "push_inline vm1 (NewInt (AsInt a * AsInt b)) = Continue vm2"
      "stackTop vm2 = stackTop vm - 1"
      "stack_get vm2 (stackTop vm2 - 1) = Some (NewInt (AsInt a * AsInt b))"
      using int_binop_push [OF tt] by blast
    have "step vm0 = Continue vm2"
      using rb mul tt ia ib p(1) by (simp add: step_MUL exec_MUL_def Let_def)
    then show ?thesis using p st mul
      by (auto simp add: IsInt_NewInt sint_AsInt_NewInt_wrap wrap48_sint_arith arith_op_def
          opcode_defs)
  qed
next
  assume h: "readByte vm0 = Some (OP_NEGATE, vm) \<and> stack_get vm (stackTop vm - 1) = Some a \<and> IsInt a"
  then have rb: "readByte vm0 = Some (OP_NEGATE, vm)"
    and sg: "stack_get vm (stackTop vm - 1) = Some a" and ia: "IsInt a" by simp_all
  have st: "stackTop vm = stackTop vm0" using readByte_Some [OF rb] by simp
  have rng: "0 \<le> stackTop vm - 1 \<and> stackTop vm - 1 < STACK_MAX"
    using sg by (auto simp add: stack_get_def split: if_splits)
  have "step vm0 = Continue (vm\<lparr>stack := (stack vm)(nat (stackTop vm - 1) := NewInt (- AsInt a))\<rparr>)"
    using rb sg ia rng by (simp add: step_NEGATE exec_NEGATE_def stack_set_def)
  then show "\<exists>vm2 r. step vm0 = Continue vm2
                  \<and> stackTop vm2 = stackTop vm0
                  \<and> stack_get vm2 (stackTop vm2 - 1) = Some r
                  \<and> IsInt r
                  \<and> sint (AsInt r) = wrap48 (- sint (AsInt a))"
    using st rng
    by (auto simp add: stack_get_def IsInt_NewInt sint_AsInt_NewInt_wrap wrap48_sint_arith)
qed

text \<open>
  The theorem at \<open>i = 2 ^ 47\<close>, at the addition \<open>(2 ^ 47 - 1) + 1\<close> and at the
  negation of \<open>- 2 ^ 47\<close>: all three wrap to \<open>- 2 ^ 47\<close>.
\<close>

theorem C10_wrapping_witness:
  "(- (2 ^ 47) \<le> (- 140737488355328 :: int) \<and> (- 140737488355328 :: int) < 2 ^ 47
      \<and> (- 140737488355328 - sint (140737488355328 :: 64 word)) mod 2 ^ 48 = 0)
   \<and> - 140737488355328 = wrap48 (sint (140737488355328 :: 64 word))
   \<and> readByte (example_vm [OP_ADD] [NewInt 140737488355327, NewInt 1])
       = Some (OP_ADD, (example_vm [OP_ADD] [NewInt 140737488355327, NewInt 1])\<lparr>ip := 1\<rparr>)
   \<and> take_two ((example_vm [OP_ADD] [NewInt 140737488355327, NewInt 1])\<lparr>ip := 1\<rparr>)
       = Some (NewInt 140737488355327, NewInt 1,
               (example_vm [OP_ADD] [NewInt 140737488355327, NewInt 1])\<lparr>ip := 1, stackTop := 0\<rparr>)
   \<and> IsInt (NewInt 140737488355327) \<and> IsInt (NewInt 1)
   \<and> (\<exists>vm2 r. step (example_vm [OP_ADD] [NewInt 140737488355327, NewInt 1]) = Continue vm2
          \<and> stackTop vm2 = 1 \<and> stack_get vm2 0 = Some r \<and> IsInt r
          \<and> sint (AsInt r) = - 140737488355328)
   \<and> readByte (example_vm [OP_NEGATE] [NewInt (- 140737488355328)])
       = Some (OP_NEGATE, (example_vm [OP_NEGATE] [NewInt (- 140737488355328)])\<lparr>ip := 1\<rparr>)
   \<and> stack_get ((example_vm [OP_NEGATE] [NewInt (- 140737488355328)])\<lparr>ip := 1\<rparr>) 0
       = Some (NewInt (- 140737488355328))
   \<and> (\<exists>vm2 r. step (example_vm [OP_NEGATE] [NewInt (- 140737488355328)]) = Continue vm2
          \<and> stackTop vm2 = 1 \<and> stack_get vm2 0 = Some r \<and> IsInt r
          \<and> sint (AsInt r) = - 140737488355328)"
proof -
  let ?va = "example_vm [OP_ADD] [NewInt 140737488355327, NewInt 1]"
  let ?vn = "example_vm [OP_NEGATE] [NewInt (- 140737488355328)]"
  have r1: "- (2 ^ 47) \<le> (- 140737488355328 :: int) \<and> (- 140737488355328 :: int) < 2 ^ 47
      \<and> (- 140737488355328 - sint (140737488355328 :: 64 word)) mod 2 ^ 48 = 0"
    by simp
  have a1: "readByte ?va = Some (OP_ADD, ?va\<lparr>ip := 1\<rparr>)"
    by (simp add: example_vm_def readByte_def NewVM_def NewChunk_def)
  have a2: "take_two (?va\<lparr>ip := 1\<rparr>)
       = Some (NewInt 140737488355327, NewInt 1, ?va\<lparr>ip := 1, stackTop := 0\<rparr>)"
    by (simp add: example_vm_def take_two_def stack_get_def STACK_MAX_def NewVM_def)
  have a3: "IsInt (NewInt 140737488355327) \<and> IsInt (NewInt 1)"
    by (simp add: IsInt_NewInt)
  have n1: "readByte ?vn = Some (OP_NEGATE, ?vn\<lparr>ip := 1\<rparr>)"
    by (simp add: example_vm_def readByte_def NewVM_def NewChunk_def)
  have n2: "stack_get (?vn\<lparr>ip := 1\<rparr>) 0 = Some (NewInt (- 140737488355328))"
    by (simp add: example_vm_def stack_get_def STACK_MAX_def NewVM_def)
  have sa: "sint (AsInt (NewInt 140737488355327)) = 140737488355327"
    "sint (AsInt (NewInt 1)) = 1"
    "sint (AsInt (NewInt (- 140737488355328))) = - 140737488355328"
    by (simp_all add: sint_AsInt_NewInt)
  have w: "wrap48 140737488355328 = - 140737488355328"
    by (simp add: wrap48_def)
  note t1 = C10_wrapping [of "140737488355328" ?va OP_ADD "?va\<lparr>ip := 1\<rparr>"
      "NewInt 140737488355327" "NewInt 1" "?va\<lparr>ip := 1, stackTop := 0\<rparr>"]
  note t2 = C10_wrapping [of "140737488355328" ?vn OP_NEGATE "?vn\<lparr>ip := 1\<rparr>"
      "NewInt (- 140737488355328)" "NewInt 1" "?vn\<lparr>ip := 1, stackTop := 0\<rparr>"]
  note uniq = t1 [THEN conjunct2, THEN conjunct2, THEN conjunct2, THEN conjunct2,
      THEN conjunct1, THEN spec, THEN mp]
  note addc = t1 [THEN conjunct2, THEN conjunct2, THEN conjunct2, THEN conjunct2,
      THEN conjunct2, THEN conjunct1, THEN mp]
  note negc = t2 [THEN conjunct2, THEN conjunct2, THEN conjunct2, THEN conjunct2,
      THEN conjunct2, THEN conjunct2, THEN mp]
  have u: "- 140737488355328 = wrap48 (sint (140737488355328 :: 64 word))"
    by (rule uniq) (rule r1)
  have pa: "readByte ?va = Some (OP_ADD, ?va\<lparr>ip := 1\<rparr>)
        \<and> (OP_ADD = OP_ADD \<or> OP_ADD = OP_SUB \<or> OP_ADD = OP_MUL)
        \<and> take_two (?va\<lparr>ip := 1\<rparr>)
            = Some (NewInt 140737488355327, NewInt 1, ?va\<lparr>ip := 1, stackTop := 0\<rparr>)
        \<and> IsInt (NewInt 140737488355327) \<and> IsInt (NewInt 1)"
    using a1 a2 a3 by simp
  have ra: "\<exists>vm2 r. step ?va = Continue vm2 \<and> stackTop vm2 = stackTop ?va - 1
          \<and> stack_get vm2 (stackTop vm2 - 1) = Some r \<and> IsInt r
          \<and> sint (AsInt r) = wrap48 (arith_op OP_ADD (sint (AsInt (NewInt 140737488355327)))
                (sint (AsInt (NewInt 1))))"
    by (rule addc) (rule pa)
  have pn: "readByte ?vn = Some (OP_NEGATE, ?vn\<lparr>ip := 1\<rparr>)
        \<and> stack_get (?vn\<lparr>ip := 1\<rparr>) (stackTop (?vn\<lparr>ip := 1\<rparr>) - 1)
            = Some (NewInt (- 140737488355328))
        \<and> IsInt (NewInt (- 140737488355328))"
    using n1 n2 by (simp add: IsInt_NewInt example_vm_def)
  have rn: "\<exists>vm2 r. step ?vn = Continue vm2 \<and> stackTop vm2 = stackTop ?vn
          \<and> stack_get vm2 (stackTop vm2 - 1) = Some r \<and> IsInt r
          \<and> sint (AsInt r) = wrap48 (- sint (AsInt (NewInt (- 140737488355328))))"
    by (rule negc) (rule pn)
  have sta: "stackTop ?va - 1 = 1" and stn: "stackTop ?vn = 1"
    by (simp_all add: example_vm_def)
  have wa: "wrap48 (arith_op OP_ADD (sint (AsInt (NewInt 140737488355327)))
                (sint (AsInt (NewInt 1)))) = - 140737488355328"
    by (simp add: sa arith_op_def wrap48_def)
  have wn: "wrap48 (- sint (AsInt (NewInt (- 140737488355328)))) = - 140737488355328"
    by (simp add: sa wrap48_def)
  from ra obtain vm2 r where x: "step ?va = Continue vm2" "stackTop vm2 = stackTop ?va - 1"
      "stack_get vm2 (stackTop vm2 - 1) = Some r" "IsInt r"
      "sint (AsInt r) = wrap48 (arith_op OP_ADD (sint (AsInt (NewInt 140737488355327)))
                (sint (AsInt (NewInt 1))))"
    by blast
  have ra': "\<exists>vm2 r. step ?va = Continue vm2 \<and> stackTop vm2 = 1 \<and> stack_get vm2 0 = Some r
      \<and> IsInt r \<and> sint (AsInt r) = - 140737488355328"
    using x unfolding sta wa by (intro exI [of _ vm2] exI [of _ r]) simp
  from rn obtain vm3 r3 where y: "step ?vn = Continue vm3" "stackTop vm3 = stackTop ?vn"
      "stack_get vm3 (stackTop vm3 - 1) = Some r3" "IsInt r3"
      "sint (AsInt r3) = wrap48 (- sint (AsInt (NewInt (- 140737488355328))))"
    by blast
  have rn': "\<exists>vm2 r. step ?vn = Continue vm2 \<and> stackTop vm2 = 1 \<and> stack_get vm2 0 = Some r
      \<and> IsInt r \<and> sint (AsInt r) = - 140737488355328"
    using y unfolding stn wn by (intro exI [of _ vm3] exI [of _ r3]) simp
  show ?thesis
    by (intro conjI) (rule r1 [THEN conjunct1], rule r1 [THEN conjunct2, THEN conjunct1],
        rule r1 [THEN conjunct2, THEN conjunct2], rule u, rule a1, rule a2,
        rule a3 [THEN conjunct1], rule a3 [THEN conjunct2], rule ra', rule n1, rule n2,
        rule rn')
qed

section \<open>Global variables\<close>

lemma code_at:
  assumes "0 \<le> i" "take k (drop (nat i) xs) = ys" "length ys = k" "j < k"
  shows "xs ! nat (i + int j) = ys ! j \<and> i + int j < int (length xs)"
proof -
  have len: "k \<le> length xs - nat i"
    using arg_cong [OF assms(2), of length] assms(3) by simp
  have "ys ! j = take k (drop (nat i) xs) ! j" using assms(2) by simp
  also have "\<dots> = drop (nat i) xs ! j" using assms(4) by simp
  also have "\<dots> = xs ! (nat i + j)" using len assms(4) by simp
  finally have "xs ! (nat i + j) = ys ! j" by simp
  moreover have "nat (i + int j) = nat i + j" using assms(1) by simp
  ultimately show ?thesis using len assms(1,4) by auto
qed

lemma step_SET_GLOBAL:
  "readByte vm0 = Some (OP_SET_GLOBAL, vm) \<Longrightarrow> step vm0 = exec_SET_GLOBAL vm"
  and step_GET_GLOBAL:
  "readByte vm0 = Some (OP_GET_GLOBAL, vm) \<Longrightarrow> step vm0 = exec_GET_GLOBAL vm"
  by (simp_all add: step_def opcode_defs)

lemma readByte_at:
  assumes "0 \<le> ip vm" "ip vm < int (length (Code (vm_chunk vm)))"
  shows "readByte vm = Some (Code (vm_chunk vm) ! nat (ip vm), vm\<lparr>ip := ip vm + 1\<rparr>)"
  using assms by (simp add: readByte_def Let_def)

lemma readShort_at:
  assumes "0 \<le> ip vm" "ip vm + 1 < int (length (Code (vm_chunk vm)))"
  shows "readShort vm =
    Some (push_bit 8 (ucast (Code (vm_chunk vm) ! nat (ip vm))) OR
          ucast (Code (vm_chunk vm) ! nat (ip vm + 1)), vm\<lparr>ip := ip vm + 2\<rparr>)"
  using assms by (simp add: readShort_def Let_def)

lemma global_name_ip [simp]: "global_name (vm\<lparr>ip := k\<rparr>) idx = global_name vm idx"
  by (simp add: global_name_def)

lemma global_name_chunk:
  "vm_chunk vm' = vm_chunk vm \<Longrightarrow> global_name vm' idx = global_name vm idx"
  by (simp add: global_name_def)

lemma set_global_step:
  assumes i0: "0 \<le> ip vm"
    and code: "take 3 (drop (nat (ip vm)) (Code (vm_chunk vm))) = [OP_SET_GLOBAL, hi, lo]"
    and name: "global_name vm (push_bit 8 (ucast hi) OR ucast lo) = Some name"
    and top: "0 < stackTop vm" "stackTop vm \<le> STACK_MAX"
  shows "step vm = Continue (vm\<lparr>ip := ip vm + 3,
            globals := (globals vm)(name \<mapsto> stack vm (nat (stackTop vm - 1)))\<rparr>)"
proof -
  let ?code = "Code (vm_chunk vm)"
  have c0: "?code ! nat (ip vm) = OP_SET_GLOBAL \<and> ip vm < int (length ?code)"
    using code_at [OF i0 code, of 0] by simp
  have c1: "?code ! nat (ip vm + 1) = hi \<and> ip vm + 1 < int (length ?code)"
    using code_at [OF i0 code, of 1] by simp
  have c2: "?code ! nat (ip vm + 2) = lo \<and> ip vm + 2 < int (length ?code)"
    using code_at [OF i0 code, of 2] by simp
  have rb: "readByte vm = Some (OP_SET_GLOBAL, vm\<lparr>ip := ip vm + 1\<rparr>)"
    using readByte_at [of vm] i0 c0 by simp
  have rs: "readShort (vm\<lparr>ip := ip vm + 1\<rparr>) =
      Some (push_bit 8 (ucast hi) OR ucast lo, vm\<lparr>ip := ip vm + 3\<rparr>)"
    using readShort_at [of "vm\<lparr>ip := ip vm + 1\<rparr>"] i0 c1 c2 by (simp add: add.commute)
  show ?thesis
    using top name
    by (simp add: step_SET_GLOBAL [OF rb] exec_SET_GLOBAL_def rs stack_get_def)
qed

lemma get_global_step:
  assumes i0: "0 \<le> ip vm"
    and code: "take 3 (drop (nat (ip vm)) (Code (vm_chunk vm))) = [OP_GET_GLOBAL, hi, lo]"
    and name: "global_name vm (push_bit 8 (ucast hi) OR ucast lo) = Some name"
    and val: "globals vm name = Some v"
    and top: "0 \<le> stackTop vm" "stackTop vm < STACK_MAX"
  shows "step vm = Continue (vm\<lparr>ip := ip vm + 3,
            stack := (stack vm)(nat (stackTop vm) := v), stackTop := stackTop vm + 1\<rparr>)"
proof -
  let ?code = "Code (vm_chunk vm)"
  have c0: "?code ! nat (ip vm) = OP_GET_GLOBAL \<and> ip vm < int (length ?code)"
    using code_at [OF i0 code, of 0] by simp
  have c1: "?code ! nat (ip vm + 1) = hi \<and> ip vm + 1 < int (length ?code)"
    using code_at [OF i0 code, of 1] by simp
  have c2: "?code ! nat (ip vm + 2) = lo \<and> ip vm + 2 < int (length ?code)"
    using code_at [OF i0 code, of 2] by simp
  have rb: "readByte vm = Some (OP_GET_GLOBAL, vm\<lparr>ip := ip vm + 1\<rparr>)"
    using readByte_at [of vm] i0 c0 by simp
  have rs: "readShort (vm\<lparr>ip := ip vm + 1\<rparr>) =
      Some (push_bit 8 (ucast hi) OR ucast lo, vm\<lparr>ip := ip vm + 3\<rparr>)"
    using readShort_at [of "vm\<lparr>ip := ip vm + 1\<rparr>"] i0 c1 c2 by (simp add: add.commute)
  show ?thesis
    using top name val
    by (simp add: step_GET_GLOBAL [OF rb] exec_GET_GLOBAL_def rs push_inline_def stack_set_def)
qed

text \<open>
  C7. At a \<open>SET_GLOBAL\<close> instruction with at least one value on the operand stack,
  one step stores the top of the stack in the globals table under the instruction's
  name and leaves the stack and its depth as they were. When the next instruction is a
  \<open>GET_GLOBAL\<close> of the same name and the stack has room for one more value, the
  following step pushes exactly the value that was stored.
\<close>

theorem C7_set_then_get_global:
  assumes i0: "0 \<le> ip vm"
    and code: "take 6 (drop (nat (ip vm)) (Code (vm_chunk vm)))
                 = [OP_SET_GLOBAL, hi, lo, OP_GET_GLOBAL, hi', lo']"
    and name: "global_name vm (push_bit 8 (ucast hi) OR ucast lo) = Some name"
    and name': "global_name vm (push_bit 8 (ucast hi') OR ucast lo') = Some name"
    and top: "0 < stackTop vm" "stackTop vm < STACK_MAX"
  shows "\<exists>vm1 vm2.
           step vm = Continue vm1
           \<and> stackTop vm1 = stackTop vm \<and> stack vm1 = stack vm
           \<and> globals vm1 = (globals vm)(name \<mapsto> stack vm (nat (stackTop vm - 1)))
           \<and> step vm1 = Continue vm2
           \<and> stackTop vm2 = stackTop vm + 1
           \<and> stack vm2 = (stack vm)(nat (stackTop vm) := stack vm (nat (stackTop vm - 1)))
           \<and> stack_get vm2 (stackTop vm2 - 1) = Some (stack vm (nat (stackTop vm - 1)))
           \<and> execute 2 vm = Continue vm2"
proof -
  let ?top = "stack vm (nat (stackTop vm - 1))"
  let ?vm1 = "vm\<lparr>ip := ip vm + 3, globals := (globals vm)(name \<mapsto> ?top)\<rparr>"
  let ?vm2 = "?vm1\<lparr>ip := ip ?vm1 + 3, stack := (stack ?vm1)(nat (stackTop ?vm1) := ?top),
                   stackTop := stackTop ?vm1 + 1\<rparr>"
  have code1: "take 3 (drop (nat (ip vm)) (Code (vm_chunk vm))) = [OP_SET_GLOBAL, hi, lo]"
    using arg_cong [OF code, of "take 3"] by (simp add: min_def)
  have len: "6 \<le> length (Code (vm_chunk vm)) - nat (ip vm)"
    using arg_cong [OF code, of length] by simp
  have "drop 3 (take 6 (drop (nat (ip vm)) (Code (vm_chunk vm)))) = [OP_GET_GLOBAL, hi', lo']"
    using code by simp
  then have code2: "take 3 (drop (nat (ip vm + 3)) (Code (vm_chunk vm))) = [OP_GET_GLOBAL, hi', lo']"
    using i0 by (simp add: drop_take nat_add_distrib add.commute)
  have s1: "step vm = Continue ?vm1"
    using set_global_step [OF i0 code1 name] top by simp
  have "global_name ?vm1 (push_bit 8 (ucast hi') OR ucast lo')
          = global_name vm (push_bit 8 (ucast hi') OR ucast lo')"
    by (rule global_name_chunk) simp
  then have nm: "global_name ?vm1 (push_bit 8 (ucast hi') OR ucast lo') = Some name"
    using name' by simp
  have s2: "step ?vm1 = Continue ?vm2"
    by (rule get_global_step [where hi = hi' and lo = lo' and name = name])
       (use i0 code2 nm top in simp_all)
  have e: "execute 2 vm = Continue ?vm2"
    by (simp add: execute_numeral s1 s2)
  have g: "stack_get ?vm2 (stackTop ?vm2 - 1) = Some ?top"
    using top by (simp add: stack_get_def)
  show ?thesis
    using s1 s2 e g by (intro exI [of _ ?vm1] exI [of _ ?vm2]) simp
qed

text \<open>
  The theorem on the code \<open>SET_GLOBAL 0; GET_GLOBAL 0; HALT\<close> with the name \<open>x\<close> in
  the pool and the integer 42 on the stack.
\<close>

theorem C7_set_then_get_global_witness:
  "0 \<le> ip example_global_vm
   \<and> take 6 (drop (nat (ip example_global_vm)) (Code (vm_chunk example_global_vm)))
        = [OP_SET_GLOBAL, 0, 0, OP_GET_GLOBAL, 0, 0]
   \<and> global_name example_global_vm (push_bit 8 (ucast (0 :: 8 word)) OR ucast (0 :: 8 word))
        = Some ''x''
   \<and> 0 < stackTop example_global_vm \<and> stackTop example_global_vm < STACK_MAX
   \<and> (\<exists>vm1 vm2.
           step example_global_vm = Continue vm1
           \<and> stackTop vm1 = 1 \<and> stack vm1 = stack example_global_vm
           \<and> globals vm1 = [''x'' \<mapsto> NewInt 42]
           \<and> step vm1 = Continue vm2
           \<and> stackTop vm2 = 2
           \<and> stack_get vm2 1 = Some (NewInt 42)
           \<and> execute 2 example_global_vm = Continue vm2)"
proof -
  have h1: "0 \<le> ip example_global_vm"
    by (simp add: example_global_vm_def example_vm_def NewVM_def)
  have h2: "take 6 (drop (nat (ip example_global_vm)) (Code (vm_chunk example_global_vm)))
        = [OP_SET_GLOBAL, 0, 0, OP_GET_GLOBAL, 0, 0]"
    by (simp add: example_global_vm_def example_vm_def NewVM_def)
  have h3: "global_name example_global_vm (push_bit 8 (ucast (0 :: 8 word)) OR ucast (0 :: 8 word))
        = Some ''x''"
    by (simp add: example_global_vm_def example_vm_def NewVM_def global_name_def deref_def
        AsString_def NewString_def value_defs)
  have h4: "0 < stackTop example_global_vm"
    by (simp add: example_global_vm_def example_vm_def NewVM_def)
  have h5: "stackTop example_global_vm < STACK_MAX"
    by (simp add: example_global_vm_def example_vm_def NewVM_def STACK_MAX_def)
  have v: "stackTop example_global_vm = 1" "globals example_global_vm = Map.empty"
    "stack example_global_vm 0 = NewInt 42"
    by (simp_all add: example_global_vm_def example_vm_def NewVM_def)
  from C7_set_then_get_global [OF h1 h2 h3 h3 h4 h5]
  obtain vm1 vm2 where r:
    "step example_global_vm = Continue vm1"
    "stackTop vm1 = stackTop example_global_vm" "stack vm1 = stack example_global_vm"
    "globals vm1 = (globals example_global_vm)(''x'' \<mapsto>
        stack example_global_vm (nat (stackTop example_global_vm - 1)))"
    "step vm1 = Continue vm2"
    "stackTop vm2 = stackTop example_global_vm + 1"
    "stack_get vm2 (stackTop vm2 - 1) = Some (stack example_global_vm
        (nat (stackTop example_global_vm - 1)))"
    "execute 2 example_global_vm = Continue vm2"
    by blast
  have "\<exists>vm1 vm2.
           step example_global_vm = Continue vm1
           \<and> stackTop vm1 = 1 \<and> stack vm1 = stack example_global_vm
           \<and> globals vm1 = [''x'' \<mapsto> NewInt 42]
           \<and> step vm1 = Continue vm2
           \<and> stackTop vm2 = 2
           \<and> stack_get vm2 1 = Some (NewInt 42)
           \<and> execute 2 example_global_vm = Continue vm2"
    using r by (intro exI [of _ vm1] exI [of _ vm2]) (simp add: v)
  then show ?thesis using h1 h2 h3 h4 h5 by (intro conjI)
qed

section \<open>Stack overflow\<close>

lemma execute_add:
  "execute (m + n) vm =
     (case execute m vm of
        Continue vm1 \<Rightarrow> execute n vm1
      | Returned v err vm1 \<Rightarrow> Returned v err vm1
      | Panicked msg \<Rightarrow> Panicked msg)"
  by (induction m arbitrary: vm) (auto split: step_result.splits)

lemma push_inline_full:
  "STACK_MAX \<le> stackTop vm \<Longrightarrow> push_inline vm v = Panicked ''index out of range''"
  by (simp add: push_inline_def stack_set_def)

lemma step_CONST_0:
  assumes "0 \<le> ip vm" "ip vm < int (length (Code (vm_chunk vm)))"
    "Code (vm_chunk vm) ! nat (ip vm) = OP_CONST_0"
  shows "step vm = push_inline (vm\<lparr>ip := ip vm + 1\<rparr>) (NewInt 0)"
  using assms by (simp add: step_def readByte_def Let_def)

lemma const0_run:
  assumes "Code (vm_chunk vm) = replicate N OP_CONST_0 @ rest"
    and "ip vm = stackTop vm" and "0 \<le> ip vm"
    and "ip vm + int n \<le> STACK_MAX" and "ip vm + int n \<le> int N"
  shows "\<exists>vm'. execute n vm = Continue vm' \<and> ip vm' = ip vm + int n
           \<and> stackTop vm' = ip vm' \<and> vm_chunk vm' = vm_chunk vm"
  using assms
proof (induction n arbitrary: vm)
  case 0
  then show ?case by simp
next
  case (Suc n)
  have lt: "nat (ip vm) < N"
    using Suc.prems(3,5) by linarith
  have at: "Code (vm_chunk vm) ! nat (ip vm) = OP_CONST_0"
    using Suc.prems(1) lt by (simp add: nth_append)
  have inr: "ip vm < int (length (Code (vm_chunk vm)))"
    using Suc.prems(1,3) lt by simp
  let ?vm1 = "vm\<lparr>ip := ip vm + 1, stack := (stack vm)(nat (stackTop vm) := NewInt 0),
                 stackTop := stackTop vm + 1\<rparr>"
  have s: "step vm = Continue ?vm1"
    using Suc.prems
    by (simp add: step_CONST_0 [OF Suc.prems(3) inr at] push_inline_def stack_set_def)
  have "\<exists>vm'. execute n ?vm1 = Continue vm' \<and> ip vm' = ip ?vm1 + int n
           \<and> stackTop vm' = ip vm' \<and> vm_chunk vm' = vm_chunk ?vm1"
    by (rule Suc.IH) (use Suc.prems in simp_all)
  then show ?case using s by auto
qed

text \<open>
  C5, as stated: when a push would exceed the capacity of the operand stack, the VM
  returns a runtime error record. On a chunk of 65537 \<open>OP_CONST_0\<close> instructions
  followed by \<open>OP_HALT\<close>, the first 65536 pushes fill the stack and the next one is
  a Go panic: \<open>Run\<close> returns nothing to its caller.
\<close>

theorem C5_overflow_counterexample:
  "Run 65537 NewVM
     \<lparr>Code = replicate 65537 OP_CONST_0 @ [OP_HALT], Constants = [],
      Lines = replicate 65538 0, strings = Map.empty, cells = []\<rparr>
   = Panicked ''index out of range''"
proof -
  let ?ch = "\<lparr>Code = replicate 65537 OP_CONST_0 @ [OP_HALT], Constants = [],
      Lines = replicate 65538 0, strings = Map.empty, cells = []\<rparr>"
  let ?vm0 = "(Reset NewVM)\<lparr>vm_chunk := ?ch, ip := 0\<rparr>"
  have "\<exists>vm'. execute 65536 ?vm0 = Continue vm' \<and> ip vm' = ip ?vm0 + int 65536
           \<and> stackTop vm' = ip vm' \<and> vm_chunk vm' = vm_chunk ?vm0"
    by (rule const0_run [where N = 65537 and rest = "[OP_HALT]"])
       (simp_all add: Reset_def NewVM_def STACK_MAX_def)
  then obtain vm' where r: "execute 65536 ?vm0 = Continue vm'" "ip vm' = 65536"
    "stackTop vm' = 65536" "vm_chunk vm' = ?ch"
    by (auto simp add: Reset_def NewVM_def)
  have at: "Code (vm_chunk vm') ! nat (ip vm') = OP_CONST_0"
    using r by (simp add: nth_append)
  have "step vm' = push_inline (vm'\<lparr>ip := ip vm' + 1\<rparr>) (NewInt 0)"
    by (rule step_CONST_0) (use r at in simp_all)
  then have p: "step vm' = Panicked ''index out of range''"
    using r by (simp add: push_inline_full STACK_MAX_def)
  have "execute (65536 + 1) ?vm0 = Panicked ''index out of range''"
    unfolding execute_add using r(1) p by simp
  then show ?thesis by (simp add: Run_def)
qed

lemma yarn_print_frameCount:
  "yarn_print vm n idxs = Some vm' \<Longrightarrow> frameCount vm' = frameCount vm"
proof (induction idxs arbitrary: vm)
  case Nil
  then show ?case by simp
next
  case (Cons i rest)
  then show ?case by (fastforce split: option.splits)
qed

lemma exec_YARN_frameCount:
  "exec_YARN vm = Continue vm' \<Longrightarrow> frameCount vm' = frameCount vm"
  by (auto simp add: exec_YARN_def readByte_def push_inline_def stack_set_def Let_def
      split: option.splits if_splits dest!: yarn_print_frameCount)

lemma push_inline_frameCount:
  "push_inline vm v = Continue vm' \<Longrightarrow> frameCount vm' = frameCount vm"
  by (auto simp add: push_inline_def stack_set_def split: option.splits if_splits)

lemma readByte_frameCount:
  "readByte vm = Some (b, vm') \<Longrightarrow> frameCount vm' = frameCount vm"
  by (auto simp add: readByte_def Let_def split: if_splits)

lemma readShort_frameCount:
  "readShort vm = Some (w, vm') \<Longrightarrow> frameCount vm' = frameCount vm"
  by (auto simp add: readShort_def Let_def split: if_splits)

lemma take_two_frameCount:
  "take_two vm = Some (a, b, vm') \<Longrightarrow> frameCount vm' = frameCount vm"
  by (auto simp add: take_two_def split: option.splits)

lemma stack_set_frameCount:
  "stack_set vm i v = Some vm' \<Longrightarrow> frameCount vm' = frameCount vm"
  by (auto simp add: stack_set_def split: if_splits)

lemmas frameCount_dests =
  push_inline_frameCount readByte_frameCount readShort_frameCount take_two_frameCount
  stack_set_frameCount

lemma exec_CONST_I8_frameCount:
  "exec_CONST_I8 vm = Continue vm' \<Longrightarrow> frameCount vm' = frameCount vm"
  by (fastforce simp add: exec_CONST_I8_def Let_def
      split: option.splits if_splits prod.splits dest: frameCount_dests)

lemma exec_CONST_I16_frameCount:
  "exec_CONST_I16 vm = Continue vm' \<Longrightarrow> frameCount vm' = frameCount vm"
  by (fastforce simp add: exec_CONST_I16_def Let_def
      split: option.splits if_splits prod.splits dest: frameCount_dests)

lemma exec_CONSTANT_frameCount:
  "exec_CONSTANT vm = Continue vm' \<Longrightarrow> frameCount vm' = frameCount vm"
  by (fastforce simp add: exec_CONSTANT_def Let_def
      split: option.splits if_splits prod.splits dest: frameCount_dests)

lemma exec_ADD_frameCount:
  "exec_ADD vm = Continue vm' \<Longrightarrow> frameCount vm' = frameCount vm"
  by (fastforce simp add: exec_ADD_def Let_def
      split: option.splits if_splits prod.splits dest: frameCount_dests)

lemma exec_SUB_frameCount:
  "exec_SUB vm = Continue vm' \<Longrightarrow> frameCount vm' = frameCount vm"
  by (fastforce simp add: exec_SUB_def Let_def
      split: option.splits if_splits prod.splits dest: frameCount_dests)

lemma exec_MUL_frameCount:
  "exec_MUL vm = Continue vm' \<Longrightarrow> frameCount vm' = frameCount vm"
  by (fastforce simp add: exec_MUL_def Let_def
      split: option.splits if_splits prod.splits dest: frameCount_dests)

lemma exec_DIV_frameCount:
  "exec_DIV vm = Continue vm' \<Longrightarrow> frameCount vm' = frameCount vm"
  by (fastforce simp add: exec_DIV_def Let_def
      split: option.splits if_splits prod.splits dest: frameCount_dests)

lemma exec_NEGATE_frameCount:
  "exec_NEGATE vm = Continue vm' \<Longrightarrow> frameCount vm' = frameCount vm"
  by (fastforce simp add: exec_NEGATE_def Let_def
      split: option.splits if_splits prod.splits dest: frameCount_dests)

lemma exec_EQUAL_frameCount:
  "exec_EQUAL vm = Continue vm' \<Longrightarrow> frameCount vm' = frameCount vm"
  by (fastforce simp add: exec_EQUAL_def Let_def
      split: option.splits if_splits prod.splits dest: frameCount_dests)

lemma exec_NOT_EQUAL_frameCount:
  "exec_NOT_EQUAL vm = Continue vm' \<Longrightarrow> frameCount vm' = frameCount vm"
  by (fastforce simp add: exec_NOT_EQUAL_def Let_def
      split: option.splits if_splits prod.splits dest: frameCount_dests)

lemma exec_GREATER_frameCount:
  "exec_GREATER vm = Continue vm' \<Longrightarrow> frameCount vm' = frameCount vm"
  by (fastforce simp add: exec_GREATER_def Let_def
      split: option.splits if_splits prod.splits dest: frameCount_dests)

lemma exec_LESS_frameCount:
  "exec_LESS vm = Continue vm' \<Longrightarrow> frameCount vm' = frameCount vm"
  by (fastforce simp add: exec_LESS_def Let_def
      split: option.splits if_splits prod.splits dest: frameCount_dests)

lemma exec_NOT_frameCount:
  "exec_NOT vm = Continue vm' \<Longrightarrow> frameCount vm' = frameCount vm"
  by (fastforce simp add: exec_NOT_def Let_def
      split: option.splits if_splits prod.splits dest: frameCount_dests)

lemma exec_DUP_frameCount:
  "exec_DUP vm = Continue vm' \<Longrightarrow> frameCount vm' = frameCount vm"
  by (fastforce simp add: exec_DUP_def Let_def
      split: option.splits if_splits prod.splits dest: frameCount_dests)

lemma exec_GET_GLOBAL_frameCount:
  "exec_GET_GLOBAL vm = Continue vm' \<Longrightarrow> frameCount vm' = frameCount vm"
  by (fastforce simp add: exec_GET_GLOBAL_def Let_def
      split: option.splits if_splits prod.splits dest: frameCount_dests)

lemma exec_SET_GLOBAL_frameCount:
  "exec_SET_GLOBAL vm = Continue vm' \<Longrightarrow> frameCount vm' = frameCount vm"
  by (fastforce simp add: exec_SET_GLOBAL_def Let_def
      split: option.splits if_splits prod.splits dest: frameCount_dests)

lemma exec_JUMP_frameCount:
  "exec_JUMP vm = Continue vm' \<Longrightarrow> frameCount vm' = frameCount vm"
  by (fastforce simp add: exec_JUMP_def Let_def
      split: option.splits if_splits prod.splits dest: frameCount_dests)

lemma exec_JUMP_IF_LIE_frameCount:
  "exec_JUMP_IF_LIE vm = Continue vm' \<Longrightarrow> frameCount vm' = frameCount vm"
  by (fastforce simp add: exec_JUMP_IF_LIE_def Let_def
      split: option.splits if_splits prod.splits dest: frameCount_dests)

lemma exec_JUMP_IF_TRU_frameCount:
  "exec_JUMP_IF_TRU vm = Continue vm' \<Longrightarrow> frameCount vm' = frameCount vm"
  by (fastforce simp add: exec_JUMP_IF_TRU_def Let_def
      split: option.splits if_splits prod.splits dest: frameCount_dests)

lemma exec_LOOP_frameCount:
  "exec_LOOP vm = Continue vm' \<Longrightarrow> frameCount vm' = frameCount vm"
  by (fastforce simp add: exec_LOOP_def Let_def
      split: option.splits if_splits prod.splits dest: frameCount_dests)

lemma exec_HALT_frameCount:
  "exec_HALT vm = Continue vm' \<Longrightarrow> frameCount vm' = frameCount vm"
  by (fastforce simp add: exec_HALT_def Let_def
      split: option.splits if_splits prod.splits dest: frameCount_dests)

lemmas exec_frameCount =
  exec_CONST_I8_frameCount exec_CONST_I16_frameCount exec_CONSTANT_frameCount exec_ADD_frameCount exec_SUB_frameCount exec_MUL_frameCount exec_DIV_frameCount exec_NEGATE_frameCount exec_EQUAL_frameCount exec_NOT_EQUAL_frameCount exec_GREATER_frameCount exec_LESS_frameCount exec_NOT_frameCount exec_DUP_frameCount exec_GET_GLOBAL_frameCount exec_SET_GLOBAL_frameCount exec_JUMP_frameCount exec_JUMP_IF_LIE_frameCount exec_JUMP_IF_TRU_frameCount exec_LOOP_frameCount exec_HALT_frameCount exec_YARN_frameCount

lemma step_frameCount:
  "step vm = Continue vm' \<Longrightarrow> frameCount vm' = frameCount vm"
proof -
  assume s: "step vm = Continue vm'"
  then obtain op vm1 where rb: "readByte vm = Some (op, vm1)"
    by (auto simp add: step_def split: option.splits)
  have f: "frameCount vm1 = frameCount vm"
    using rb by (rule readByte_frameCount)
  have "frameCount vm' = frameCount vm1"
    using s rb
    by (auto simp add: step_def split: if_splits
        dest: exec_frameCount push_inline_frameCount)
  then show ?thesis using f by simp
qed

lemma execute_frameCount:
  "execute n vm = Continue vm' \<Longrightarrow> frameCount vm' = frameCount vm"
proof (induction n arbitrary: vm)
  case 0
  then show ?case by simp
next
  case (Suc n)
  then show ?case
    by (auto split: step_result.splits dest: step_frameCount)
qed

lemma readByte_stackTop:
  "readByte vm = Some (b, vm1) \<Longrightarrow> stackTop vm1 = stackTop vm"
  by (auto simp add: readByte_def Let_def split: if_splits)

lemma readShort_stackTop:
  "readShort vm = Some (w, vm1) \<Longrightarrow> stackTop vm1 = stackTop vm"
  by (auto simp add: readShort_def Let_def split: if_splits)

lemma step_push_dispatch:
  "readByte vm = Some (OP_CONST_0, vm1) \<Longrightarrow> step vm = push_inline vm1 (NewInt 0)"
  "readByte vm = Some (OP_CONST_1, vm1) \<Longrightarrow> step vm = push_inline vm1 (NewInt 1)"
  "readByte vm = Some (OP_CONST_MINUS1, vm1) \<Longrightarrow> step vm = push_inline vm1 (NewInt (- 1))"
  "readByte vm = Some (OP_NOTHING, vm1) \<Longrightarrow> step vm = push_inline vm1 NewNothing"
  "readByte vm = Some (OP_TRU, vm1) \<Longrightarrow> step vm = push_inline vm1 (NewBool True)"
  "readByte vm = Some (OP_LIE, vm1) \<Longrightarrow> step vm = push_inline vm1 (NewBool False)"
  "readByte vm = Some (OP_CONST_I8, vm1) \<Longrightarrow> step vm = exec_CONST_I8 vm1"
  "readByte vm = Some (OP_CONST_I16, vm1) \<Longrightarrow> step vm = exec_CONST_I16 vm1"
  "readByte vm = Some (OP_CONSTANT, vm1) \<Longrightarrow> step vm = exec_CONSTANT vm1"
  "readByte vm = Some (OP_DUP, vm1) \<Longrightarrow> step vm = exec_DUP vm1"
  by (simp_all add: step_def opcode_defs)

lemma push_inline_Continue:
  "push_inline vm v = Continue vm' \<Longrightarrow> stackTop vm' = stackTop vm + 1 \<and> stackTop vm < STACK_MAX"
  by (auto simp add: push_inline_def stack_set_def split: option.splits if_splits)

lemma take_two_stackTop:
  "take_two vm = Some (a, b, vm') \<Longrightarrow> stackTop vm' = stackTop vm - 2"
  by (auto simp add: take_two_def split: option.splits)

lemma stack_set_stackTop:
  "stack_set vm i v = Some vm' \<Longrightarrow> stackTop vm' = stackTop vm"
  by (auto simp add: stack_set_def split: if_splits)

lemma yarn_print_stackTop:
  "yarn_print vm n idxs = Some vm' \<Longrightarrow> stackTop vm' = stackTop vm"
proof (induction idxs arbitrary: vm)
  case Nil
  then show ?case by simp
next
  case (Cons i rest)
  then show ?case by (fastforce split: option.splits)
qed

lemmas stackTop_dests =
  push_inline_Continue readByte_stackTop readShort_stackTop take_two_stackTop
  stack_set_stackTop yarn_print_stackTop

lemma exec_CONST_I8_full:
  "STACK_MAX \<le> stackTop vm \<Longrightarrow> exec_CONST_I8 vm = Continue vm' \<Longrightarrow> stackTop vm' \<le> stackTop vm"
  by (fastforce simp add: exec_CONST_I8_def Let_def
      split: option.splits if_splits prod.splits dest: stackTop_dests)

lemma exec_CONST_I16_full:
  "STACK_MAX \<le> stackTop vm \<Longrightarrow> exec_CONST_I16 vm = Continue vm' \<Longrightarrow> stackTop vm' \<le> stackTop vm"
  by (fastforce simp add: exec_CONST_I16_def Let_def
      split: option.splits if_splits prod.splits dest: stackTop_dests)

lemma exec_CONSTANT_full:
  "STACK_MAX \<le> stackTop vm \<Longrightarrow> exec_CONSTANT vm = Continue vm' \<Longrightarrow> stackTop vm' \<le> stackTop vm"
  by (fastforce simp add: exec_CONSTANT_def Let_def
      split: option.splits if_splits prod.splits dest: stackTop_dests)

lemma exec_ADD_full:
  "STACK_MAX \<le> stackTop vm \<Longrightarrow> exec_ADD vm = Continue vm' \<Longrightarrow> stackTop vm' \<le> stackTop vm"
  by (fastforce simp add: exec_ADD_def Let_def
      split: option.splits if_splits prod.splits dest: stackTop_dests)

lemma exec_SUB_full:
  "STACK_MAX \<le> stackTop vm \<Longrightarrow> exec_SUB vm = Continue vm' \<Longrightarrow> stackTop vm' \<le> stackTop vm"
  by (fastforce simp add: exec_SUB_def Let_def
      split: option.splits if_splits prod.splits dest: stackTop_dests)

lemma exec_MUL_full:
  "STACK_MAX \<le> stackTop vm \<Longrightarrow> exec_MUL vm = Continue vm' \<Longrightarrow> stackTop vm' \<le> stackTop vm"
  by (fastforce simp add: exec_MUL_def Let_def
      split: option.splits if_splits prod.splits dest: stackTop_dests)

lemma exec_DIV_full:
  "STACK_MAX \<le> stackTop vm \<Longrightarrow> exec_DIV vm = Continue vm' \<Longrightarrow> stackTop vm' \<le> stackTop vm"
  by (fastforce simp add: exec_DIV_def Let_def
      split: option.splits if_splits prod.splits dest: stackTop_dests)

lemma exec_NEGATE_full:
  "STACK_MAX \<le> stackTop vm \<Longrightarrow> exec_NEGATE vm = Continue vm' \<Longrightarrow> stackTop vm' \<le> stackTop vm"
  by (fastforce simp add: exec_NEGATE_def Let_def
      split: option.splits if_splits prod.splits dest: stackTop_dests)

lemma exec_EQUAL_full:
  "STACK_MAX \<le> stackTop vm \<Longrightarrow> exec_EQUAL vm = Continue vm' \<Longrightarrow> stackTop vm' \<le> stackTop vm"
  by (fastforce simp add: exec_EQUAL_def Let_def
      split: option.splits if_splits prod.splits dest: stackTop_dests)

lemma exec_NOT_EQUAL_full:
  "STACK_MAX \<le> stackTop vm \<Longrightarrow> exec_NOT_EQUAL vm = Continue vm' \<Longrightarrow> stackTop vm' \<le> stackTop vm"
  by (fastforce simp add: exec_NOT_EQUAL_def Let_def
      split: option.splits if_splits prod.splits dest: stackTop_dests)

lemma exec_GREATER_full:
  "STACK_MAX \<le> stackTop vm \<Longrightarrow> exec_GREATER vm = Continue vm' \<Longrightarrow> stackTop vm' \<le> stackTop vm"
  by (fastforce simp add: exec_GREATER_def Let_def
      split: option.splits if_splits prod.splits dest: stackTop_dests)

lemma exec_LESS_full:
  "STACK_MAX \<le> stackTop vm \<Longrightarrow> exec_LESS vm = Continue vm' \<Longrightarrow> stackTop vm' \<le> stackTop vm"
  by (fastforce simp add: exec_LESS_def Let_def
      split: option.splits if_splits prod.splits dest: stackTop_dests)

lemma exec_NOT_full:
  "STACK_MAX \<le> stackTop vm \<Longrightarrow> exec_NOT vm = Continue vm' \<Longrightarrow> stackTop vm' \<le> stackTop vm"
  by (fastforce simp add: exec_NOT_def Let_def
      split: option.splits if_splits prod.splits dest: stackTop_dests)

lemma exec_DUP_full:
  "STACK_MAX \<le> stackTop vm \<Longrightarrow> exec_DUP vm = Continue vm' \<Longrightarrow> stackTop vm' \<le> stackTop vm"
  by (fastforce simp add: exec_DUP_def Let_def
      split: option.splits if_splits prod.splits dest: stackTop_dests)

lemma exec_GET_GLOBAL_full:
  "STACK_MAX \<le> stackTop vm \<Longrightarrow> exec_GET_GLOBAL vm = Continue vm' \<Longrightarrow> stackTop vm' \<le> stackTop vm"
  by (fastforce simp add: exec_GET_GLOBAL_def Let_def
      split: option.splits if_splits prod.splits dest: stackTop_dests)

lemma exec_SET_GLOBAL_full:
  "STACK_MAX \<le> stackTop vm \<Longrightarrow> exec_SET_GLOBAL vm = Continue vm' \<Longrightarrow> stackTop vm' \<le> stackTop vm"
  by (fastforce simp add: exec_SET_GLOBAL_def Let_def
      split: option.splits if_splits prod.splits dest: stackTop_dests)

lemma exec_JUMP_full:
  "STACK_MAX \<le> stackTop vm \<Longrightarrow> exec_JUMP vm = Continue vm' \<Longrightarrow> stackTop vm' \<le> stackTop vm"
  by (fastforce simp add: exec_JUMP_def Let_def
      split: option.splits if_splits prod.splits dest: stackTop_dests)

lemma exec_JUMP_IF_LIE_full:
  "STACK_MAX \<le> stackTop vm \<Longrightarrow> exec_JUMP_IF_LIE vm = Continue vm' \<Longrightarrow> stackTop vm' \<le> stackTop vm"
  by (fastforce simp add: exec_JUMP_IF_LIE_def Let_def
      split: option.splits if_splits prod.splits dest: stackTop_dests)

lemma exec_JUMP_IF_TRU_full:
  "STACK_MAX \<le> stackTop vm \<Longrightarrow> exec_JUMP_IF_TRU vm = Continue vm' \<Longrightarrow> stackTop vm' \<le> stackTop vm"
  by (fastforce simp add: exec_JUMP_IF_TRU_def Let_def
      split: option.splits if_splits prod.splits dest: stackTop_dests)

lemma exec_LOOP_full:
  "STACK_MAX \<le> stackTop vm \<Longrightarrow> exec_LOOP vm = Continue vm' \<Longrightarrow> stackTop vm' \<le> stackTop vm"
  by (fastforce simp add: exec_LOOP_def Let_def
      split: option.splits if_splits prod.splits dest: stackTop_dests)

lemma exec_HALT_full:
  "STACK_MAX \<le> stackTop vm \<Longrightarrow> exec_HALT vm = Continue vm' \<Longrightarrow> stackTop vm' \<le> stackTop vm"
  by (fastforce simp add: exec_HALT_def Let_def
      split: option.splits if_splits prod.splits dest: stackTop_dests)

lemma exec_YARN_full:
  "STACK_MAX \<le> stackTop vm \<Longrightarrow> exec_YARN vm = Continue vm' \<Longrightarrow> stackTop vm' \<le> stackTop vm"
  by (fastforce simp add: exec_YARN_def Let_def
      split: option.splits if_splits prod.splits dest: stackTop_dests)

lemmas exec_full =
  exec_CONST_I8_full exec_CONST_I16_full exec_CONSTANT_full exec_ADD_full exec_SUB_full
  exec_MUL_full exec_DIV_full exec_NEGATE_full exec_EQUAL_full exec_NOT_EQUAL_full
  exec_GREATER_full exec_LESS_full exec_NOT_full exec_DUP_full exec_GET_GLOBAL_full
  exec_SET_GLOBAL_full exec_JUMP_full exec_JUMP_IF_LIE_full exec_JUMP_IF_TRU_full
  exec_LOOP_full exec_HALT_full exec_YARN_full

lemma step_full:
  assumes full: "STACK_MAX \<le> stackTop vm" and s: "step vm = Continue vm'"
  shows "stackTop vm' \<le> stackTop vm"
proof -
  obtain op vm1 where rb: "readByte vm = Some (op, vm1)"
    using s by (auto simp add: step_def split: option.splits)
  have f: "stackTop vm1 = stackTop vm"
    using rb by (rule readByte_stackTop)
  then have f1: "STACK_MAX \<le> stackTop vm1" using full by simp
  have "stackTop vm' \<le> stackTop vm1"
    using s rb f1
    by (auto simp add: step_def split: if_splits
        dest: exec_full push_inline_Continue)
  then show ?thesis using f by simp
qed

lemma readShort_Some:
  "readShort vm = Some (w, vm1) \<Longrightarrow> vm1 = vm\<lparr>ip := ip vm + 2\<rparr>"
  by (auto simp add: readShort_def Let_def split: if_splits)

lemma step_GET_GLOBAL_full:
  assumes full: "STACK_MAX \<le> stackTop vm"
    and rb: "readByte vm = Some (OP_GET_GLOBAL, vm1)"
    and rs: "readShort vm1 = Some (idx, vm2)"
    and gn: "global_name vm idx = Some name"
    and gl: "globals vm name = Some val"
  shows "step vm = Panicked ''index out of range''"
proof -
  have v1: "vm1 = vm\<lparr>ip := ip vm + 1\<rparr>" using readByte_Some [OF rb] by simp
  have v2: "vm2 = vm1\<lparr>ip := ip vm1 + 2\<rparr>" using rs by (rule readShort_Some)
  have s: "step vm = exec_GET_GLOBAL vm1"
    using rb by (simp add: step_def opcode_defs)
  have n2: "global_name vm2 idx = Some name"
    using gn v1 v2 by simp
  have g2: "globals vm2 name = Some val"
    using gl v1 v2 by simp
  have t2: "STACK_MAX \<le> stackTop vm2"
    using full v1 v2 by simp
  show ?thesis
    using rs n2 g2 t2 by (simp add: s exec_GET_GLOBAL_def push_inline_full)
qed

lemma step_YARN_full:
  assumes full: "STACK_MAX \<le> stackTop vm"
    and rb: "readByte vm = Some (OP_YARN, vm1)"
    and ra: "readByte vm1 = Some (0, vm2)"
  shows "step vm = Panicked ''index out of range''"
proof -
  have s: "step vm = exec_YARN vm1"
    using rb by (simp add: step_def opcode_defs)
  have t2: "STACK_MAX \<le> stackTop vm2"
    using full readByte_stackTop [OF rb] readByte_stackTop [OF ra] by simp
  show ?thesis
    using ra t2 by (simp add: s exec_YARN_def push_inline_full)
qed


text \<open>
  C5, amended. When the operand stack is full (\<open>stackTop\<close> at its capacity of 65536),
  a push does not make the VM return a runtime error: the write of the dispatch loop
  into the stack array is out of range and the Go runtime panics. This holds for every
  push of the loop onto a full stack: the constant loads, \<open>OP_DUP\<close>, \<open>OP_GET_GLOBAL\<close>
  of a defined name and \<open>OP_YARN\<close> with no arguments; every other instruction takes
  its operands off the stack first, and no instruction goes on with a deeper stack than
  the full one it found. The helper \<open>push\<close>, which the loop does not use, panics with
  "Stack overflow". No instruction changes the frame count, so the frame stack cannot
  overflow.
\<close>

theorem C5_overflow_panics:
  assumes full: "STACK_MAX \<le> stackTop vm"
  shows "push_inline vm v = Panicked ''index out of range''
     \<and> push vm v = Panicked ''Stack overflow''
     \<and> (readByte vm = Some (op, vm1)
          \<and> op \<in> {OP_CONST_0, OP_CONST_1, OP_CONST_MINUS1, OP_NOTHING, OP_TRU, OP_LIE,
                   OP_CONST_I8, OP_CONST_I16, OP_CONSTANT, OP_DUP}
        \<longrightarrow> step vm = Panicked ''index out of range'' \<and> returned (step vm) = None)
     \<and> (readByte vm = Some (OP_GET_GLOBAL, vm1) \<and> readShort vm1 = Some (idx, vm2)
          \<and> global_name vm idx = Some name \<and> globals vm name = Some val
        \<longrightarrow> step vm = Panicked ''index out of range'' \<and> returned (step vm) = None)
     \<and> (readByte vm = Some (OP_YARN, vm1) \<and> readByte vm1 = Some (0, vm2)
        \<longrightarrow> step vm = Panicked ''index out of range'' \<and> returned (step vm) = None)
     \<and> (step vm = Continue vm' \<longrightarrow> stackTop vm' \<le> stackTop vm)
     \<and> (execute n vmf = Continue vmf' \<longrightarrow> frameCount vmf' = frameCount vmf)"
proof (intro conjI impI)
  show "push_inline vm v = Panicked ''index out of range''"
    using full by (rule push_inline_full)
  show "push vm v = Panicked ''Stack overflow''"
    using full by (simp add: push_def)
next
  assume h: "readByte vm = Some (op, vm1)
          \<and> op \<in> {OP_CONST_0, OP_CONST_1, OP_CONST_MINUS1, OP_NOTHING, OP_TRU, OP_LIE,
                   OP_CONST_I8, OP_CONST_I16, OP_CONSTANT, OP_DUP}"
  then have rb: "readByte vm = Some (op, vm1)" by simp
  have f1: "STACK_MAX \<le> stackTop vm1"
    using readByte_stackTop [OF rb] full by simp
  have pf: "\<And>vm' w. stackTop vm' = stackTop vm1 \<Longrightarrow>
              push_inline vm' w = Panicked ''index out of range''"
    using f1 by (simp add: push_inline_full)
  have i8: "exec_CONST_I8 vm1 = Panicked ''index out of range''"
    by (auto simp add: exec_CONST_I8_def pf dest: readByte_stackTop split: option.splits)
  have i16: "exec_CONST_I16 vm1 = Panicked ''index out of range''"
    by (auto simp add: exec_CONST_I16_def pf dest: readShort_stackTop split: option.splits)
  have cst: "exec_CONSTANT vm1 = Panicked ''index out of range''"
    by (auto simp add: exec_CONSTANT_def pf dest: readShort_stackTop split: option.splits)
  have dup: "exec_DUP vm1 = Panicked ''index out of range''"
    by (auto simp add: exec_DUP_def pf split: option.splits)
  from h consider "op = OP_CONST_0" | "op = OP_CONST_1" | "op = OP_CONST_MINUS1"
    | "op = OP_NOTHING" | "op = OP_TRU" | "op = OP_LIE" | "op = OP_CONST_I8"
    | "op = OP_CONST_I16" | "op = OP_CONSTANT" | "op = OP_DUP"
    by blast
  then show "step vm = Panicked ''index out of range''"
    using rb i8 i16 cst dup by cases (simp_all add: step_push_dispatch pf)
  then show "returned (step vm) = None"
    by (simp add: returned_def)
next
  assume h: "readByte vm = Some (OP_GET_GLOBAL, vm1) \<and> readShort vm1 = Some (idx, vm2)
          \<and> global_name vm idx = Some name \<and> globals vm name = Some val"
  show "step vm = Panicked ''index out of range''"
    using step_GET_GLOBAL_full [OF full h [THEN conjunct1] h [THEN conjunct2, THEN conjunct1]
        h [THEN conjunct2, THEN conjunct2, THEN conjunct1]
        h [THEN conjunct2, THEN conjunct2, THEN conjunct2]] .
  then show "returned (step vm) = None"
    by (simp add: returned_def)
next
  assume h: "readByte vm = Some (OP_YARN, vm1) \<and> readByte vm1 = Some (0, vm2)"
  show "step vm = Panicked ''index out of range''"
    using step_YARN_full [OF full h [THEN conjunct1] h [THEN conjunct2]] .
  then show "returned (step vm) = None"
    by (simp add: returned_def)
next
  assume "step vm = Continue vm'"
  with full show "stackTop vm' \<le> stackTop vm" by (rule step_full)
next
  assume "execute n vmf = Continue vmf'"
  then show "frameCount vmf' = frameCount vmf" by (rule execute_frameCount)
qed

text \<open>
  The theorem on four full stacks, in front of \<open>OP_CONST_0\<close>, of \<open>OP_GET_GLOBAL\<close>
  of the defined global \<open>x\<close>, of \<open>OP_YARN\<close> with no arguments and of \<open>OP_POP\<close>, and
  its last part on one step of \<open>OP_TRU\<close>.
\<close>

theorem C5_overflow_panics_witness:
  "STACK_MAX \<le> stackTop (full_stack_vm [OP_CONST_0, OP_HALT])
   \<and> readByte (full_stack_vm [OP_CONST_0, OP_HALT])
       = Some (OP_CONST_0, (full_stack_vm [OP_CONST_0, OP_HALT])\<lparr>ip := 1\<rparr>)
   \<and> push_inline (full_stack_vm [OP_CONST_0, OP_HALT]) (NewInt 0)
       = Panicked ''index out of range''
   \<and> push (full_stack_vm [OP_CONST_0, OP_HALT]) (NewInt 0) = Panicked ''Stack overflow''
   \<and> step (full_stack_vm [OP_CONST_0, OP_HALT]) = Panicked ''index out of range''
   \<and> returned (step (full_stack_vm [OP_CONST_0, OP_HALT])) = None
   \<and> STACK_MAX \<le> stackTop (full_stack_vm [OP_GET_GLOBAL, 0, 0, OP_HALT])
   \<and> readByte (full_stack_vm [OP_GET_GLOBAL, 0, 0, OP_HALT])
       = Some (OP_GET_GLOBAL, (full_stack_vm [OP_GET_GLOBAL, 0, 0, OP_HALT])\<lparr>ip := 1\<rparr>)
   \<and> readShort ((full_stack_vm [OP_GET_GLOBAL, 0, 0, OP_HALT])\<lparr>ip := 1\<rparr>)
       = Some (0, (full_stack_vm [OP_GET_GLOBAL, 0, 0, OP_HALT])\<lparr>ip := 3\<rparr>)
   \<and> global_name (full_stack_vm [OP_GET_GLOBAL, 0, 0, OP_HALT]) 0 = Some ''x''
   \<and> globals (full_stack_vm [OP_GET_GLOBAL, 0, 0, OP_HALT]) ''x'' = Some (NewInt 42)
   \<and> step (full_stack_vm [OP_GET_GLOBAL, 0, 0, OP_HALT]) = Panicked ''index out of range''
   \<and> returned (step (full_stack_vm [OP_GET_GLOBAL, 0, 0, OP_HALT])) = None
   \<and> STACK_MAX \<le> stackTop (full_stack_vm [OP_YARN, 0, OP_HALT])
   \<and> readByte (full_stack_vm [OP_YARN, 0, OP_HALT])
       = Some (OP_YARN, (full_stack_vm [OP_YARN, 0, OP_HALT])\<lparr>ip := 1\<rparr>)
   \<and> readByte ((full_stack_vm [OP_YARN, 0, OP_HALT])\<lparr>ip := 1\<rparr>)
       = Some (0, (full_stack_vm [OP_YARN, 0, OP_HALT])\<lparr>ip := 2\<rparr>)
   \<and> step (full_stack_vm [OP_YARN, 0, OP_HALT]) = Panicked ''index out of range''
   \<and> returned (step (full_stack_vm [OP_YARN, 0, OP_HALT])) = None
   \<and> STACK_MAX \<le> stackTop (full_stack_vm [OP_POP, OP_HALT])
   \<and> step (full_stack_vm [OP_POP, OP_HALT])
       = Continue ((full_stack_vm [OP_POP, OP_HALT])\<lparr>ip := 1, stackTop := 65535\<rparr>)
   \<and> stackTop ((full_stack_vm [OP_POP, OP_HALT])\<lparr>ip := 1, stackTop := 65535\<rparr>)
       \<le> stackTop (full_stack_vm [OP_POP, OP_HALT])
   \<and> execute 1 (example_vm [OP_TRU, OP_HALT] [])
       = Continue ((example_vm [OP_TRU, OP_HALT] [])
           \<lparr>ip := 1, stack := (\<lambda>k. 0)(0 := NewBool True), stackTop := 1\<rparr>)
   \<and> frameCount ((example_vm [OP_TRU, OP_HALT] [])
           \<lparr>ip := 1, stack := (\<lambda>k. 0)(0 := NewBool True), stackTop := 1\<rparr>)
       = frameCount (example_vm [OP_TRU, OP_HALT] [])"
proof -
  let ?V = "full_stack_vm [OP_CONST_0, OP_HALT]"
  let ?G = "full_stack_vm [OP_GET_GLOBAL, 0, 0, OP_HALT]"
  let ?Y = "full_stack_vm [OP_YARN, 0, OP_HALT]"
  let ?P = "full_stack_vm [OP_POP, OP_HALT]"
  let ?P1 = "?P\<lparr>ip := 1, stackTop := 65535\<rparr>"
  let ?W = "example_vm [OP_TRU, OP_HALT] []"
  let ?W1 = "?W\<lparr>ip := 1, stack := (\<lambda>k. 0)(0 := NewBool True), stackTop := 1\<rparr>"
  have fV: "STACK_MAX \<le> stackTop ?V"
    by (simp add: full_stack_vm_def example_vm_def STACK_MAX_def)
  have fG: "STACK_MAX \<le> stackTop ?G"
    by (simp add: full_stack_vm_def example_vm_def STACK_MAX_def)
  have fY: "STACK_MAX \<le> stackTop ?Y"
    by (simp add: full_stack_vm_def example_vm_def STACK_MAX_def)
  have fP: "STACK_MAX \<le> stackTop ?P"
    by (simp add: full_stack_vm_def example_vm_def STACK_MAX_def)
  have rV: "readByte ?V = Some (OP_CONST_0, ?V\<lparr>ip := 1\<rparr>)"
    by (simp add: full_stack_vm_def example_vm_def readByte_def NewVM_def)
  have rG: "readByte ?G = Some (OP_GET_GLOBAL, ?G\<lparr>ip := 1\<rparr>)"
    by (simp add: full_stack_vm_def example_vm_def readByte_def NewVM_def)
  have sG: "readShort (?G\<lparr>ip := 1\<rparr>) = Some (0, ?G\<lparr>ip := 3\<rparr>)"
    by (simp add: full_stack_vm_def example_vm_def readShort_def NewVM_def)
  have nG: "global_name ?G 0 = Some ''x''"
    by (simp add: full_stack_vm_def global_name_def deref_def AsString_def NewString_def
        QNAN_BASE_def TAG_STRING_def TAG_SHIFT_def PAYLOAD_MASK_def)
  have gG: "globals ?G ''x'' = Some (NewInt 42)"
    by (simp add: full_stack_vm_def)
  have rY: "readByte ?Y = Some (OP_YARN, ?Y\<lparr>ip := 1\<rparr>)"
    by (simp add: full_stack_vm_def example_vm_def readByte_def NewVM_def)
  have aY: "readByte (?Y\<lparr>ip := 1\<rparr>) = Some (0, ?Y\<lparr>ip := 2\<rparr>)"
    by (simp add: full_stack_vm_def example_vm_def readByte_def NewVM_def)
  have sP: "step ?P = Continue ?P1"
    by (simp add: full_stack_vm_def example_vm_def NewVM_def step_def readByte_def
        opcode_defs Let_def)
  have sW: "execute 1 ?W = Continue ?W1"
    by (simp add: example_vm_def NewVM_def NewChunk_def step_def readByte_def push_inline_def
        stack_set_def STACK_MAX_def opcode_defs Let_def)
  note tV = C5_overflow_panics [OF fV, of "NewInt 0" OP_CONST_0 "?V\<lparr>ip := 1\<rparr>"]
  have hV: "readByte ?V = Some (OP_CONST_0, ?V\<lparr>ip := 1\<rparr>)
      \<and> OP_CONST_0 \<in> {OP_CONST_0, OP_CONST_1, OP_CONST_MINUS1, OP_NOTHING, OP_TRU, OP_LIE,
                   OP_CONST_I8, OP_CONST_I16, OP_CONSTANT, OP_DUP}"
    using rV by simp
  note cV = tV [THEN conjunct2, THEN conjunct2, THEN conjunct1, THEN mp, OF hV]
  note tG = C5_overflow_panics [OF fG, of _ _ "?G\<lparr>ip := 1\<rparr>" 0 "?G\<lparr>ip := 3\<rparr>"
      "''x''" "NewInt 42"]
  have hG: "readByte ?G = Some (OP_GET_GLOBAL, ?G\<lparr>ip := 1\<rparr>)
      \<and> readShort (?G\<lparr>ip := 1\<rparr>) = Some (0, ?G\<lparr>ip := 3\<rparr>)
      \<and> global_name ?G 0 = Some ''x'' \<and> globals ?G ''x'' = Some (NewInt 42)"
    using rG sG nG gG by simp
  note cG = tG [THEN conjunct2, THEN conjunct2, THEN conjunct2, THEN conjunct1, THEN mp, OF hG]
  note tY = C5_overflow_panics [OF fY, of _ _ "?Y\<lparr>ip := 1\<rparr>" _ "?Y\<lparr>ip := 2\<rparr>"]
  have hY: "readByte ?Y = Some (OP_YARN, ?Y\<lparr>ip := 1\<rparr>)
      \<and> readByte (?Y\<lparr>ip := 1\<rparr>) = Some (0, ?Y\<lparr>ip := 2\<rparr>)"
    using rY aY by simp
  note cY = tY [THEN conjunct2, THEN conjunct2, THEN conjunct2, THEN conjunct2,
      THEN conjunct1, THEN mp, OF hY]
  note tP = C5_overflow_panics [OF fP, of _ _ _ _ _ _ _ ?P1 1 ?W ?W1]
  note cP = tP [THEN conjunct2, THEN conjunct2, THEN conjunct2, THEN conjunct2,
      THEN conjunct2, THEN conjunct1, THEN mp, OF sP]
  note cW = tP [THEN conjunct2, THEN conjunct2, THEN conjunct2, THEN conjunct2,
      THEN conjunct2, THEN conjunct2, THEN mp, OF sW]
  show ?thesis
    by (intro conjI) (rule fV, rule rV, rule tV [THEN conjunct1],
        rule tV [THEN conjunct2, THEN conjunct1], rule cV [THEN conjunct1],
        rule cV [THEN conjunct2],
        rule fG, rule rG, rule sG, rule nG, rule gG, rule cG [THEN conjunct1],
        rule cG [THEN conjunct2],
        rule fY, rule rY, rule aY, rule cY [THEN conjunct1], rule cY [THEN conjunct2],
        rule fP, rule sP, rule cP, rule sW, rule cW)
qed

section \<open>While loops\<close>

lemma compile_one_statement:
  "rest \<noteq> [] \<Longrightarrow>
   compileStatements (one_statement # rest) c =
     compileStatements rest
       (c\<lparr>chunk := (chunk c)\<lparr>Code := Code (chunk c) @ [OP_CONST_1, OP_POP],
                                Lines := Lines (chunk c) @ [0, 0]\<rparr>\<rparr>)"
  unfolding one_statement_def
  by (simp add: compileIntegerLiteral_def emit_def WriteOpcode_def WriteByte_def Let_def)

lemma compile_last_statement:
  "compileStatements [one_statement] c =
     Inr (c\<lparr>chunk := (chunk c)\<lparr>Code := Code (chunk c) @ [OP_CONST_1],
                                  Lines := Lines (chunk c) @ [0]\<rparr>\<rparr>)"
  unfolding one_statement_def
  by (simp add: compileIntegerLiteral_def emit_def WriteOpcode_def WriteByte_def Let_def)

lemma compile_one_statements:
  "compileStatements (one_statement # replicate n one_statement) c =
     Inr (c\<lparr>chunk := (chunk c)\<lparr>
            Code := Code (chunk c) @ concat (replicate n [OP_CONST_1, OP_POP]) @ [OP_CONST_1],
            Lines := Lines (chunk c) @ replicate (2 * n + 1) 0\<rparr>\<rparr>)"
proof (induction n arbitrary: c)
  case 0
  show ?case by (simp add: compile_last_statement del: compileStatements.simps)
next
  case (Suc n)
  show ?case by (simp add: compile_one_statement Suc.IH del: compileStatements.simps)
qed

lemma length_body: "length (concat (replicate n [a, b :: 8 word])) = 2 * n"
  by (induction n) simp_all

lemma long_loop_lines:
  "0 # 0 # 0 # 0 # replicate 32767 (0 :: int) @ [0, 0, 0, 0, 0] = replicate 32776 0"
proof -
  have a: "replicate (Suc (Suc (Suc (Suc 0)))) (0 :: int) = [0, 0, 0, 0]"
    and b: "replicate (Suc (Suc (Suc (Suc (Suc 0))))) (0 :: int) = [0, 0, 0, 0, 0]"
    by simp_all
  have "replicate (Suc (Suc (Suc (Suc 0))) + (32767 + Suc (Suc (Suc (Suc (Suc 0)))))) (0 :: int)
      = replicate (Suc (Suc (Suc (Suc 0)))) 0
        @ replicate 32767 0 @ replicate (Suc (Suc (Suc (Suc (Suc 0))))) 0"
    by (simp only: replicate_add)
  moreover have "Suc (Suc (Suc (Suc 0))) + (32767 + Suc (Suc (Suc (Suc (Suc 0))))) = 32776"
    by simp
  ultimately show ?thesis by (simp only: a b append_Cons append_Nil)
qed

lemma compile_long_loop_program: "Compile New long_loop_program = Inr long_loop_chunk"
proof -
  have "replicate (Suc 16383) one_statement = one_statement # replicate 16383 one_statement"
    by (rule replicate_Suc)
  then have r: "replicate 16384 one_statement = one_statement # replicate 16383 one_statement"
    by simp
  show ?thesis
    unfolding long_loop_program_def r
    by (simp add: compile_one_statements length_body long_loop_lines long_loop_chunk_def
        Compile_def
        compileStatementWithContext_def compileBooleanLiteral_def emitJump_def emitLoop_def
        patchJump_def emit_def WriteOpcode_def WriteByte_def Count_def New_def NewChunk_def
        Let_def opcode_defs del: compileStatements.simps)
qed


lemma long_loop_code_length: "length (Code long_loop_chunk) = 32776"
  by (simp add: long_loop_chunk_def length_body)

lemma long_loop_code_nonempty: "Code long_loop_chunk \<noteq> []"
  by (simp add: long_loop_chunk_def)

lemma long_loop_code_head:
  "Code long_loop_chunk ! 0 = OP_LIE" "Code long_loop_chunk ! Suc 0 = OP_JUMP_IF_LIE"
  "Code long_loop_chunk ! 2 = 0x80" "Code long_loop_chunk ! 3 = 0x02"
  by (simp_all add: long_loop_chunk_def)

lemma jump_operand: "sint (push_bit 8 (ucast (0x80 :: 8 word)) OR ucast (0x02 :: 8 word) :: 16 word) = - 32766"
  by simp

lemma long_loop_run_2:
  "Run 2 NewVM long_loop_chunk
     = Continue (NewVM\<lparr>vm_chunk := long_loop_chunk, ip := - 32762,
                       stack := (\<lambda>k. 0)(0 := NewBool False), stackTop := 0\<rparr>)"
  by (simp add: Run_def Reset_def NewVM_def execute_numeral step_def readByte_def readShort_def
      push_inline_def stack_set_def stack_get_def STACK_MAX_def exec_JUMP_IF_LIE_def
      long_loop_code_length long_loop_code_nonempty long_loop_code_head jump_operand opcode_defs Let_def
      IsFalsey_def NewBool_def GetTag_def TAG_BOOL_def TAG_NOTHING_def QNAN_BASE_def TAG_SHIFT_def
      TAG_MASK_def PAYLOAD_MASK_def AsBool_def IsBool_def IsNothing_def)

text \<open>
  C6. The claim: a loop whose condition is falsey for the first time on its
  \<open>(k + 1)\<close>-th evaluation runs its body \<open>k\<close> times and then leaves \<open>nothing\<close> on
  the stack. The code at \<open>dey do while lie { 1 1 ... 1 }\<close> with 16384 statements in
  the body, where \<open>k = 0\<close>: the compiler accepts the program and patches the exit jump
  with the distance 32770, which \<open>patchJump\<close> allows up to 65535; the VM reads the
  operand of \<open>OP_JUMP_IF_LIE\<close> as a signed 16-bit number, -32766. The condition is
  falsey at once, the jump goes backward to \<open>ip = -32762\<close>, and the next fetch is a Go
  panic: no \<open>nothing\<close> is left and \<open>Run\<close> does not return.
\<close>

theorem C6_loop_exit_jump:
  "Compile New long_loop_program = Inr long_loop_chunk
   \<and> Run 1 NewVM long_loop_chunk
       = Continue (NewVM\<lparr>vm_chunk := long_loop_chunk, ip := 1,
                         stack := (\<lambda>k. 0)(0 := NewBool False), stackTop := 1\<rparr>)
   \<and> IsFalsey (NewBool False)
   \<and> Run 2 NewVM long_loop_chunk
       = Continue (NewVM\<lparr>vm_chunk := long_loop_chunk, ip := - 32762,
                         stack := (\<lambda>k. 0)(0 := NewBool False), stackTop := 0\<rparr>)
   \<and> Run (3 + n) NewVM long_loop_chunk = Panicked ''index out of range''
   \<and> returned (Run (3 + n) NewVM long_loop_chunk) = None"
proof -
  have r1: "Run 1 NewVM long_loop_chunk
       = Continue (NewVM\<lparr>vm_chunk := long_loop_chunk, ip := 1,
                         stack := (\<lambda>k. 0)(0 := NewBool False), stackTop := 1\<rparr>)"
    by (simp add: Run_def Reset_def NewVM_def step_def readByte_def
      push_inline_def stack_set_def STACK_MAX_def
      long_loop_code_length long_loop_code_nonempty long_loop_code_head opcode_defs Let_def)
  have f: "IsFalsey (NewBool False)"
    by (simp add: value_defs)
  have e: "3 + n = 2 + Suc n" by simp
  have r3: "Run (3 + n) NewVM long_loop_chunk = Panicked ''index out of range''"
    unfolding Run_def e execute_add
    using long_loop_run_2
    by (simp add: Run_def step_def readByte_def NewVM_def)
  show ?thesis
    using compile_long_loop_program r1 f long_loop_run_2 r3 by (simp add: returned_def)
qed

subsection \<open>The operand stack inside a loop\<close>

text \<open>
  A \<open>make\<close> statement leaves its value on the operand stack, and so does the last
  expression statement of a block; the loop does not pop the value of its body. The
  stack therefore grows with every turn of a loop. In the counting loop
  \<open>make c be 0\<close>, \<open>dey do while c < 65536 { make c be c + 1 }\<close> the stack is full
  after 65534 turns, and the evaluation of the condition that follows is a Go panic.
\<close>

lemma compile_loop_program: "Compile New loop_program = Inr loop_chunk"
  by (simp add: loop_program_def loop_chunk_def compiler_defs chunk_defs symtab_defs
      opcode_defs value_defs dec_nat.simps Let_def)

lemma sint_of_nat_small: "i < 2 ^ 47 \<Longrightarrow> sint (word_of_nat i :: 64 word) = int i"
proof -
  assume a: "i < 2 ^ 47"
  have "int i < 2 ^ 47" using a by (metis of_nat_less_iff of_nat_numeral of_nat_power)
  then have "signed_take_bit 63 (int i) = int i"
    by (intro signed_take_bit_int_eq_self) simp_all
  then show ?thesis by (simp add: signed_of_nat)
qed

lemma AsInt_NewInt_small:
  assumes "i < 2 ^ 47"
  shows "AsInt (NewInt (word_of_nat i)) = word_of_nat i"
proof -
  have "signed_take_bit 47 (word_of_nat i :: 64 word) = word_of_nat i"
    by (rule signed_take_bit_word_id) (use assms in \<open>simp_all add: sint_of_nat_small\<close>)
  then show ?thesis by (simp add: AsInt_NewInt)
qed

lemma loop_global_name: "global_name (vm\<lparr>vm_chunk := loop_chunk\<rparr>) 0 = Some ''c''"
  by (simp add: global_name_def loop_chunk_def deref_def AsString_def NewString_def
      QNAN_BASE_def TAG_STRING_def TAG_SHIFT_def PAYLOAD_MASK_def)

lemma AsInt_65536: "sint (AsInt (NewInt 65536)) = 65536"
  by (simp add: sint_AsInt_NewInt)

lemma AsInt_NewInt_1: "AsInt (NewInt 1) = 1"
  by (simp add: AsInt_NewInt)

lemma IsFalsey_NewBool: "IsFalsey (NewBool b) = (\<not> b)"
  by (cases b) (simp_all add: value_defs)

lemma nat_int_shift:
  "nat (int i + 1) = Suc i" "nat (1 + int i) = Suc i"
  "nat (int i + 2) = Suc (Suc i)" "nat (2 + int i) = Suc (Suc i)"
  by simp_all

lemma loop_iteration:
  assumes "i \<le> 65533"
  shows "\<exists>stk'. execute 9 (loop_state i stk) = Continue (loop_state (Suc i) stk')"
proof -
  have small: "i < 2 ^ 47" using assms by simp
  show ?thesis
    using assms
    apply (simp add: loop_state_def loop_chunk_def execute_numeral step_def readByte_def
      readShort_def push_inline_def stack_set_def stack_get_def take_two_def STACK_MAX_def
      exec_GET_GLOBAL_def exec_CONSTANT_def exec_LESS_def exec_JUMP_IF_LIE_def exec_ADD_def
      exec_SET_GLOBAL_def exec_LOOP_def global_name_def deref_def AsString_def NewString_def
      QNAN_BASE_def TAG_STRING_def TAG_SHIFT_def PAYLOAD_MASK_def
      IsInt_NewInt AsInt_NewInt_small [OF small] sint_of_nat_small [OF small] AsInt_65536
      IsFalsey_NewBool nat_int_shift AsInt_NewInt_1 opcode_defs Let_def)
    apply (simp add: add.commute)
    done
qed

lemma loop_iterations:
  "n \<le> 65534 \<Longrightarrow> \<exists>stk'. execute (9 * n) (loop_state 0 stk) = Continue (loop_state n stk')"
proof (induction n)
  case 0
  show ?case by (rule exI [of _ stk]) simp
next
  case (Suc n)
  then obtain stk1 where a: "execute (9 * n) (loop_state 0 stk) = Continue (loop_state n stk1)"
    by auto
  have "n \<le> 65533" using Suc.prems by simp
  then obtain stk2 where b: "execute 9 (loop_state n stk1) = Continue (loop_state (Suc n) stk2)"
    using loop_iteration by blast
  have "execute (9 * n + 9) (loop_state 0 stk) = Continue (loop_state (Suc n) stk2)"
    unfolding execute_add using a b by simp
  then show ?case by (auto simp add: add.commute)
qed

lemma loop_entry:
  "\<exists>stk. execute 2 ((Reset NewVM)\<lparr>vm_chunk := loop_chunk, ip := 0\<rparr>) = Continue (loop_state 0 stk)"
  by (simp add: loop_state_def loop_chunk_def Reset_def NewVM_def execute_numeral step_def
      readByte_def readShort_def push_inline_def stack_set_def stack_get_def STACK_MAX_def
      exec_SET_GLOBAL_def global_name_def deref_def AsString_def NewString_def
      QNAN_BASE_def TAG_STRING_def TAG_SHIFT_def PAYLOAD_MASK_def opcode_defs Let_def)

lemma loop_overflow:
  "execute 2 (loop_state 65534 stk) = Panicked ''index out of range''"
  by (simp add: loop_state_def loop_chunk_def execute_numeral step_def
      readByte_def readShort_def push_inline_def stack_set_def stack_get_def STACK_MAX_def
      exec_GET_GLOBAL_def exec_CONSTANT_def global_name_def deref_def AsString_def
      NewString_def QNAN_BASE_def TAG_STRING_def TAG_SHIFT_def PAYLOAD_MASK_def opcode_defs
      Let_def)

lemma counting_loop_stack_overflow:
  "Compile New loop_program = Inr loop_chunk
   \<and> (\<exists>stk. Run 589808 NewVM loop_chunk = Continue (loop_state 65534 stk))
   \<and> Run (589810 + n) NewVM loop_chunk = Panicked ''index out of range''
   \<and> returned (Run (589810 + n) NewVM loop_chunk) = None"
proof -
  let ?init = "(Reset NewVM)\<lparr>vm_chunk := loop_chunk, ip := 0\<rparr>"
  obtain stk0 where e: "execute 2 ?init = Continue (loop_state 0 stk0)"
    using loop_entry by blast
  obtain stk1 where l: "execute (9 * 65534) (loop_state 0 stk0) = Continue (loop_state 65534 stk1)"
    using loop_iterations [of 65534 stk0] by auto
  have a: "execute (2 + 9 * 65534) ?init = Continue (loop_state 65534 stk1)"
    unfolding execute_add using e l by simp
  have b: "execute (2 + 9 * 65534 + (2 + n)) ?init = Panicked ''index out of range''"
    unfolding execute_add [of "2 + 9 * 65534"] execute_add [of 2 n] using a loop_overflow
    by simp
  have r1: "Run 589808 NewVM loop_chunk = Continue (loop_state 65534 stk1)"
    using a by (simp add: Run_def)
  have r2: "Run (589810 + n) NewVM loop_chunk = Panicked ''index out of range''"
    using b by (simp add: Run_def add.assoc)
  show ?thesis
    using compile_loop_program r1 r2 by (auto simp add: returned_def)
qed

end
